theory Spec2Isabelle
  imports Main "HOL-Library.Sublist"
begin

section \<open>Out-of-band manager: data model\<close>

text \<open>
  A shallow embedding of \<^verbatim>\<open>aries_cloudagent/protocols/out_of_band/v1_0/manager.py\<close>.
  Every coroutine of \<^verbatim>\<open>OutOfBandManager\<close> becomes a function that takes the world (the
  connection store, the per-connection metadata, the messages handed to the responder)
  and returns an outcome together with the world it leaves behind. An exception is the
  \<open>Inl\<close> side of the outcome; the world returned with it holds every write made before the
  exception was raised, as in Python.
\<close>

datatype error =
    OutOfBandManagerError string
  | StorageNotFoundError string
  | BaseConnectionManagerError string
  | AttributeError string
  | UnboundLocalError string
  | ValueError string
  | CollaboratorError string

fun err_msg :: "error \<Rightarrow> string" where
  "err_msg (OutOfBandManagerError m) = m"
| "err_msg (StorageNotFoundError m) = m"
| "err_msg (BaseConnectionManagerError m) = m"
| "err_msg (AttributeError m) = m"
| "err_msg (UnboundLocalError m) = m"
| "err_msg (ValueError m) = m"
| "err_msg (CollaboratorError m) = m"

text \<open>Python's \<^verbatim>\<open>str\<close> of an optional string, as an f-string prints it.\<close>

fun str_opt :: "string option \<Rightarrow> string" where
  "str_opt None = ''None''"
| "str_opt (Some s) = s"

datatype HSProto = RFC160 | RFC23

text \<open>The thread decorator of an agent message, and the three messages of the reuse protocol
  (\<^verbatim>\<open>HandshakeReuse\<close>, \<^verbatim>\<open>HandshakeReuseAccept\<close>, \<^verbatim>\<open>OOBProblemReport\<close>), which share one shape:
  an \<^verbatim>\<open>_id\<close> and an optional \<^verbatim>\<open>_thread\<close>.\<close>

record ThreadDecorator =
  thid :: "string option"
  pthid :: "string option"

record AgentMessage =
  msg_id :: string
  msg_thread :: "ThreadDecorator option"

type_synonym HandshakeReuse = AgentMessage
type_synonym HandshakeReuseAccept = AgentMessage
type_synonym OOBProblemReport = AgentMessage

record MessageReceipt =
  sender_did :: "string option"

text \<open>A stored \<^verbatim>\<open>ConnRecord\<close>. The metadata of a connection is not a field of the record: it
  lives in storage under the connection id and is read and written through
  \<^verbatim>\<open>metadata_get\<close>, \<^verbatim>\<open>metadata_set\<close> and \<^verbatim>\<open>metadata_delete\<close>.\<close>

record ConnRecord =
  connection_id :: string
  my_did :: "string option"
  their_did :: "string option"
  their_role :: "string option"
  their_public_did :: "string option"
  invitation_key :: "string option"
  invitation_msg_id :: "string option"
  conn_state :: string
  conn_accept :: "string option"
  invitation_mode :: "string option"
  conn_alias :: "string option"
  connection_protocol :: "string option"

text \<open>Modelled from the spec: the constants of \<^verbatim>\<open>ConnRecord\<close> (its states, roles, accept
  policies and invitation modes) are declared outside this module. The spec names the
  lifecycle states \<^verbatim>\<open>invitation\<close>, \<^verbatim>\<open>active\<close> and \<^verbatim>\<open>abandoned\<close>, the peer role
  \<^verbatim>\<open>requester\<close>, the accept policies auto and manual and the invitation modes once and
  multi-use.\<close>

definition State_ABANDONED_rfc160 :: string where
  "State_ABANDONED_rfc160 = ''abandoned''"

definition State_INVITATION_rfc23 :: string where
  "State_INVITATION_rfc23 = ''invitation''"

definition Role_REQUESTER_rfc23 :: string where
  "Role_REQUESTER_rfc23 = ''requester''"

definition ACCEPT_AUTO :: string where
  "ACCEPT_AUTO = ''auto''"

definition ACCEPT_MANUAL :: string where
  "ACCEPT_MANUAL = ''manual''"

definition INVITATION_MODE_ONCE :: string where
  "INVITATION_MODE_ONCE = ''once''"

definition INVITATION_MODE_MULTI :: string where
  "INVITATION_MODE_MULTI = ''multi''"

datatype meta_value = MStr string | MDict "(string \<times> string) list"

record Service =
  recipient_keys :: "string list"
  routing_keys :: "string list"
  service_endpoint :: "string option"

datatype service_item = ServiceBlock Service | ServiceDID string

text \<open>The decoded content of an attachment: its \<^verbatim>\<open>@id\<close>, its \<^verbatim>\<open>@type\<close> and the rest of the
  message, which the manager hands on unread.\<close>

record AttachContent =
  content_id :: string
  content_type :: string
  content_body :: string
  content_service :: "Service option"

text \<open>An entry of \<^verbatim>\<open>requests~attach\<close>: an \<^verbatim>\<open>AttachDecorator\<close>, whose \<^verbatim>\<open>data\<close> may be absent,
  or anything else.\<close>

datatype req_attach = AttachDecorator "AttachContent option" | NotAttachDecorator string

record InvitationMessage =
  invi_id :: string
  invi_label :: "string option"
  handshake_protocols :: "string list"
  requests_attach :: "req_attach list"
  services :: "service_item list"
  invi_trace :: "string option"

record ConnectionInvitation =
  ci_id :: string
  ci_type :: string
  ci_label :: "string option"
  ci_recipient_keys :: "string list"
  ci_endpoint :: "string option"
  ci_routing_keys :: "string list"

record V10CredentialExchange =
  credential_exchange_id :: string
  cx_connection_id :: "string option"
  credential_offer_dict :: AttachContent

record V20CredExRecord =
  cred_ex_id :: string
  cx2_connection_id :: "string option"
  cred_offer :: AttachContent

record PresExRecord =
  pres_ex_id :: "string option"
  px_connection_id :: "string option"
  px_thread_id :: string
  pres_request :: AttachContent
  indy_proof_request :: "string option"
  auto_present :: bool
  px_trace :: bool

datatype message =
    MsgHandshakeReuse AgentMessage
  | MsgHandshakeReuseAccept AgentMessage
  | MsgCredRequest string
  | MsgPresentation string
  | MsgKeylistUpdate "string list"

datatype destination = TargetList "string list" | ConnectionId "string option"

record world =
  connections :: "ConnRecord list"
  conn_metadata :: "string \<times> string \<Rightarrow> meta_value option"
  outbox :: "(message \<times> destination) list"
  uuid_counter :: nat
  v10_cred_ex :: "V10CredentialExchange list"
  v20_cred_ex :: "V20CredExRecord list"
  v10_pres_ex :: "PresExRecord list"
  v20_pres_ex :: "PresExRecord list"
  multitenant_keys :: "(string \<times> string) list"
  invitations_attached :: "(string \<times> InvitationMessage) list"

type_synonym 'a outcome = "(error + 'a) \<times> world"

record MediationRecord =
  med_mediation_id :: string
  med_connection_id :: "string option"
  med_routing_keys :: "string list"
  med_endpoint :: "string option"

record DIDInfo =
  did :: string
  verkey :: string

text \<open>The profile: its settings, what it injects, and the collaborators the manager
  builds from it. The collaborators are not part of this module; they are parameters of
  the model. A collaborator that reads or writes storage takes and returns the world.\<close>

record profile =
  setting_wallet_id :: "string option"
  setting_auto_accept_requests :: bool
  setting_auto_accept_invites :: bool
  setting_auto_respond_credential_offer :: bool
  setting_auto_respond_presentation_request :: bool
  setting_public_invites :: bool
  setting_default_label :: "string option"
  setting_default_endpoint :: "string option"
  responder :: bool
  multitenant_mgr :: bool
  multitenant_default_mediator :: "MediationRecord option"
  wallet_public_did :: "DIDInfo option"
  uuid4 :: "nat \<Rightarrow> string"
  create_signing_key :: "nat \<Rightarrow> string"
  unqualify :: "string \<Rightarrow> string"
  qualify_current :: "string \<Rightarrow> string"
  HSProto_get :: "string \<Rightarrow> HSProto option"
  HSProto_name :: "HSProto \<Rightarrow> string"
  from_public_key_b58 :: "string \<Rightarrow> string"
  public_key_b58 :: "string \<Rightarrow> string"
  resolve_invitation :: "string \<Rightarrow> error + (string option \<times> string list \<times> string list)"
  mediation_record_if_id :: "string option \<Rightarrow> bool \<Rightarrow> error + MediationRecord option"
  fetch_connection_targets :: "ConnRecord \<Rightarrow> world \<Rightarrow> error + string list"
  is_ready :: "ConnRecord \<Rightarrow> bool"
  didx_receive_invitation ::
    "InvitationMessage \<Rightarrow> string option \<Rightarrow> bool option \<Rightarrow> string option \<Rightarrow> string option
      \<Rightarrow> world \<Rightarrow> ConnRecord option outcome"
  conn_receive_invitation ::
    "ConnectionInvitation \<Rightarrow> string option \<Rightarrow> bool option \<Rightarrow> string option \<Rightarrow> string option
      \<Rightarrow> world \<Rightarrow> ConnRecord option outcome"
  v10_receive_offer :: "AttachContent \<Rightarrow> bool \<Rightarrow> string \<Rightarrow> world \<Rightarrow> V10CredentialExchange outcome"
  v10_create_request ::
    "V10CredentialExchange \<Rightarrow> string option \<Rightarrow> world \<Rightarrow> (V10CredentialExchange \<times> message) outcome"
  v20_receive_offer :: "AttachContent \<Rightarrow> bool \<Rightarrow> string \<Rightarrow> world \<Rightarrow> V20CredExRecord outcome"
  v20_create_request ::
    "V20CredExRecord \<Rightarrow> string option \<Rightarrow> world \<Rightarrow> (V20CredExRecord \<times> message) outcome"
  decode_indy_proof_request :: "AttachContent \<Rightarrow> error + string"
  v10_receive_request :: "PresExRecord \<Rightarrow> world \<Rightarrow> PresExRecord outcome"
  requested_creds :: "string \<Rightarrow> world \<Rightarrow> error + string"
  v10_create_presentation :: "PresExRecord \<Rightarrow> string \<Rightarrow> world \<Rightarrow> (PresExRecord \<times> message) outcome"
  v20_receive_pres_request :: "PresExRecord \<Rightarrow> world \<Rightarrow> PresExRecord outcome"
  v20_create_pres :: "PresExRecord \<Rightarrow> world \<Rightarrow> (PresExRecord \<times> message) outcome"
  to_url :: "InvitationMessage \<Rightarrow> string option \<Rightarrow> string"

section \<open>The connection store\<close>

text \<open>Modelled from the spec: \<^verbatim>\<open>ConnRecord.metadata_get\<close>, \<^verbatim>\<open>metadata_set\<close> and
  \<^verbatim>\<open>metadata_delete\<close> are not in this module. The spec gives the connection store
  "per-connection metadata key/value storage" with "metadata get/set/delete"; a key that
  was never set reads as \<^verbatim>\<open>None\<close>, and a deleted key is absent afterwards.\<close>

definition metadata_get :: "ConnRecord \<Rightarrow> string \<Rightarrow> world \<Rightarrow> meta_value option" where
  "metadata_get conn_rec key w = conn_metadata w (connection_id conn_rec, key)"

definition metadata_set :: "ConnRecord \<Rightarrow> string \<Rightarrow> meta_value \<Rightarrow> world \<Rightarrow> world" where
  "metadata_set conn_rec key v w =
     w\<lparr>conn_metadata := (conn_metadata w)((connection_id conn_rec, key) \<mapsto> v)\<rparr>"

definition metadata_delete :: "ConnRecord \<Rightarrow> string \<Rightarrow> world \<Rightarrow> world" where
  "metadata_delete conn_rec key w =
     w\<lparr>conn_metadata := (conn_metadata w)((connection_id conn_rec, key) := None)\<rparr>"

text \<open>Modelled from the spec: \<^verbatim>\<open>ConnRecord.save\<close> is not in this module. The store is keyed
  by connection id: saving replaces the stored record of that id, or adds the record.\<close>

fun replace_record :: "ConnRecord \<Rightarrow> ConnRecord list \<Rightarrow> ConnRecord list" where
  "replace_record r [] = [r]"
| "replace_record r (x # xs) =
     (if connection_id x = connection_id r then r # xs else x # replace_record r xs)"

definition save :: "ConnRecord \<Rightarrow> world \<Rightarrow> world" where
  "save conn_rec w = w\<lparr>connections := replace_record conn_rec (connections w)\<rparr>"

fun retrieve_by_id :: "string \<Rightarrow> ConnRecord list \<Rightarrow> error + ConnRecord" where
  "retrieve_by_id cid [] = Inl (StorageNotFoundError cid)"
| "retrieve_by_id cid (x # xs) =
     (if connection_id x = cid then Inr x else retrieve_by_id cid xs)"

text \<open>The value of a record's field, by the field's name in a filter dictionary.\<close>

definition field_value :: "string \<Rightarrow> ConnRecord \<Rightarrow> string option" where
  "field_value k r =
     (if k = ''connection_id'' then Some (connection_id r)
      else if k = ''my_did'' then my_did r
      else if k = ''their_did'' then their_did r
      else if k = ''their_role'' then their_role r
      else if k = ''their_public_did'' then their_public_did r
      else if k = ''invitation_key'' then invitation_key r
      else if k = ''invitation_msg_id'' then invitation_msg_id r
      else if k = ''state'' then Some (conn_state r)
      else if k = ''accept'' then conn_accept r
      else if k = ''invitation_mode'' then invitation_mode r
      else if k = ''alias'' then conn_alias r
      else if k = ''connection_protocol'' then connection_protocol r
      else None)"

text \<open>Modelled from the spec: \<^verbatim>\<open>ConnRecord.query\<close> is not in this module. The spec gives the
  store "query-by-tag-and-filter (returns ordered list)": the stored records, in the
  store's order, whose fields equal every value of both filter dictionaries.\<close>

definition matches_filter :: "(string \<times> string option) list \<Rightarrow> ConnRecord \<Rightarrow> bool" where
  "matches_filter flt r = list_all (\<lambda>kv. field_value (fst kv) r = snd kv) flt"

definition ConnRecord_query ::
  "(string \<times> string option) list \<Rightarrow> (string \<times> string option) list \<Rightarrow> world \<Rightarrow> ConnRecord list"
where
  "ConnRecord_query tag_filter post_filter w =
     filter (\<lambda>r. matches_filter tag_filter r \<and> matches_filter post_filter r) (connections w)"

text \<open>\<^verbatim>\<open>responder.send(message, target_list=...)\<close>: the message is handed to the responder.\<close>

definition send :: "message \<Rightarrow> destination \<Rightarrow> world \<Rightarrow> world" where
  "send m dest w = w\<lparr>outbox := outbox w @ [(m, dest)]\<rparr>"

section \<open>Finding a connection to reuse\<close>

text \<open>\<^verbatim>\<open>find_existing_connection\<close>: the first record of the query whose state is
  \<^verbatim>\<open>"active"\<close>.\<close>

definition find_existing_connection ::
  "(string \<times> string option) list \<Rightarrow> (string \<times> string option) list \<Rightarrow> world \<Rightarrow> ConnRecord option"
where
  "find_existing_connection tag_filter post_filter w =
     (let conn_records = ConnRecord_query tag_filter post_filter w
      in if conn_records = [] then None
         else find (\<lambda>conn_rec. conn_state conn_rec = ''active'') conn_records)"

section \<open>The reuse messages\<close>

text \<open>\<^verbatim>\<open>receive_reuse_accepted_message\<close>. Reading \<^verbatim>\<open>_thread.pthid\<close> of a message with no
  thread decorator raises inside the \<^verbatim>\<open>try\<close>; the handler then formats \<^verbatim>\<open>invi_msg_id\<close>,
  which was never bound. The \<^verbatim>\<open>assert\<close> compares the thread id with the stored
  \<^verbatim>\<open>reuse_msg_id\<close>; its failure is caught by \<^verbatim>\<open>except Exception\<close> and raised again as
  \<^verbatim>\<open>OutOfBandManagerError\<close>, before \<^verbatim>\<open>metadata_set\<close> is reached.\<close>

definition receive_reuse_accepted_message ::
  "HandshakeReuseAccept \<Rightarrow> MessageReceipt \<Rightarrow> ConnRecord \<Rightarrow> world \<Rightarrow> unit outcome"
where
  "receive_reuse_accepted_message reuse_accepted_msg receipt conn_record w =
     (case msg_thread reuse_accepted_msg of
        None \<Rightarrow> (Inl (UnboundLocalError ''invi_msg_id''), w)
      | Some th \<Rightarrow>
          (let invi_msg_id = pthid th;
               thread_reuse_msg_id = thid th;
               conn_reuse_msg_id = metadata_get conn_record ''reuse_msg_id'' w
           in if map_option MStr thread_reuse_msg_id = conn_reuse_msg_id
              then (Inr (), metadata_set conn_record ''reuse_msg_state'' (MStr ''accepted'') w)
              else (Inl (OutOfBandManagerError
                      (''Error processing reuse accepted message for OOB invitation ''
                        @ str_opt invi_msg_id @ '', '')), w)))"

text \<open>\<^verbatim>\<open>receive_problem_report\<close>: the same, storing \<^verbatim>\<open>"not_accepted"\<close>.\<close>

definition receive_problem_report ::
  "OOBProblemReport \<Rightarrow> MessageReceipt \<Rightarrow> ConnRecord \<Rightarrow> world \<Rightarrow> unit outcome"
where
  "receive_problem_report problem_report receipt conn_record w =
     (case msg_thread problem_report of
        None \<Rightarrow> (Inl (UnboundLocalError ''invi_msg_id''), w)
      | Some th \<Rightarrow>
          (let invi_msg_id = pthid th;
               thread_reuse_msg_id = thid th;
               conn_reuse_msg_id = metadata_get conn_record ''reuse_msg_id'' w
           in if map_option MStr thread_reuse_msg_id = conn_reuse_msg_id
              then (Inr (), metadata_set conn_record ''reuse_msg_state'' (MStr ''not_accepted'') w)
              else (Inl (OutOfBandManagerError
                      (''Error processing problem report message for OOB invitation ''
                        @ str_opt invi_msg_id @ '', '')), w)))"

text \<open>The thread id an inbound message carries (\<^verbatim>\<open>None\<close> when it has no thread decorator
  or the decorator has no \<^verbatim>\<open>thid\<close>).\<close>

definition thread_id :: "AgentMessage \<Rightarrow> string option" where
  "thread_id m = (case msg_thread m of None \<Rightarrow> None | Some th \<Rightarrow> thid th)"

text \<open>\<^verbatim>\<open>create_handshake_reuse_message\<close>. A fresh \<^verbatim>\<open>HandshakeReuse\<close> takes the next message id;
  its thread id is its own id and its parent thread id is the invitation message id of the
  connection record. Only when a responder is injected is the message sent and the
  metadata written. Any exception is raised again as \<^verbatim>\<open>OutOfBandManagerError\<close>.\<close>

definition create_handshake_reuse_message ::
  "profile \<Rightarrow> InvitationMessage \<Rightarrow> ConnRecord \<Rightarrow> world \<Rightarrow> unit outcome"
where
  "create_handshake_reuse_message P invi_msg conn_record w =
     (let pthid = invitation_msg_id conn_record;
          reuse_msg_id = uuid4 P (uuid_counter w);
          w1 = w\<lparr>uuid_counter := Suc (uuid_counter w)\<rparr>;
          reuse_msg = \<lparr>msg_id = reuse_msg_id,
                       msg_thread = Some \<lparr>thid = Some reuse_msg_id, pthid = pthid\<rparr>\<rparr>
      in case fetch_connection_targets P conn_record w1 of
           Inl err \<Rightarrow>
             (Inl (OutOfBandManagerError
                (''Error on creating and sending a handshake reuse message: '' @ err_msg err)), w1)
         | Inr connection_targets \<Rightarrow>
             if responder P then
               (Inr (),
                metadata_set conn_record ''reuse_msg_state'' (MStr ''initial'')
                  (metadata_set conn_record ''reuse_msg_id'' (MStr (msg_id reuse_msg))
                    (send (MsgHandshakeReuse reuse_msg) (TargetList connection_targets) w1)))
             else (Inr (), w1))"

text \<open>The reply both branches of \<^verbatim>\<open>receive_reuse_message\<close> build and send: a fresh
  \<^verbatim>\<open>HandshakeReuseAccept\<close> threaded to the reuse message. \<^verbatim>\<open>StorageNotFoundError\<close> is the one
  exception the \<^verbatim>\<open>try\<close> of \<^verbatim>\<open>receive_reuse_message\<close> catches.\<close>

definition send_reuse_accept ::
  "profile \<Rightarrow> string option \<Rightarrow> string option \<Rightarrow> MessageReceipt \<Rightarrow> ConnRecord \<Rightarrow> world \<Rightarrow> unit outcome"
where
  "send_reuse_accept P reuse_msg_id invi_msg_id receipt conn_record w =
     (let reuse_accept_msg = \<lparr>msg_id = uuid4 P (uuid_counter w),
                              msg_thread = Some \<lparr>thid = reuse_msg_id, pthid = invi_msg_id\<rparr>\<rparr>;
          w1 = w\<lparr>uuid_counter := Suc (uuid_counter w)\<rparr>
      in case fetch_connection_targets P conn_record w1 of
           Inl (StorageNotFoundError m) \<Rightarrow>
             (Inl (OutOfBandManagerError
                (''No existing ConnRecord found for OOB Invitee, '' @ str_opt (sender_did receipt))), w1)
         | Inl err \<Rightarrow> (Inl err, w1)
         | Inr connection_targets \<Rightarrow>
             if responder P
             then (Inr (), send (MsgHandshakeReuseAccept reuse_accept_msg) (TargetList connection_targets) w1)
             else (Inr (), w1))"

text \<open>\<^verbatim>\<open>receive_reuse_message\<close>: look the connection up by the invitation message id of the
  parent thread, then by the sender DID of the receipt. When neither lookup finds a
  connection, no branch is left to run and the coroutine returns.\<close>

definition receive_reuse_message ::
  "profile \<Rightarrow> HandshakeReuse \<Rightarrow> MessageReceipt \<Rightarrow> world \<Rightarrow> unit outcome"
where
  "receive_reuse_message P reuse_msg receipt w =
     (case msg_thread reuse_msg of
        None \<Rightarrow> (Inl (AttributeError ''pthid''), w)
      | Some th \<Rightarrow>
          (let invi_msg_id = pthid th;
               reuse_msg_id = thid th
           in case find_existing_connection [] [(''invitation_msg_id'', invi_msg_id)] w of
                Some conn_record \<Rightarrow> send_reuse_accept P reuse_msg_id invi_msg_id receipt conn_record w
              | None \<Rightarrow>
                  (case find_existing_connection [(''their_did'', sender_did receipt)] [] w of
                     Some conn_record \<Rightarrow>
                       send_reuse_accept P reuse_msg_id invi_msg_id receipt conn_record w
                   | None \<Rightarrow> (Inr (), w))))"

section \<open>Waiting\<close>

text \<open>While a coroutine waits, the event loop runs the handlers of the messages that arrive.
  An arrival is one of the three inbound messages this manager handles, with the
  connection record the dispatcher resolved for it, or a save of a connection record by a
  handshake protocol's own handler. A handler's exception stays in its own task; its writes
  stay in the world. Arrivals are handled only while a coroutine of this manager waits in
  one of its two polling loops; the loop reads the store again after each arrival.\<close>

datatype inbound =
    InReuseAccept HandshakeReuseAccept MessageReceipt ConnRecord
  | InProblemReport OOBProblemReport MessageReceipt ConnRecord
  | InReuse HandshakeReuse MessageReceipt
  | InConnSaved ConnRecord

fun deliver :: "profile \<Rightarrow> inbound \<Rightarrow> world \<Rightarrow> world" where
  "deliver P (InReuseAccept m receipt c) w = snd (receive_reuse_accepted_message m receipt c w)"
| "deliver P (InProblemReport m receipt c) w = snd (receive_problem_report m receipt c w)"
| "deliver P (InReuse m receipt) w = snd (receive_reuse_message P m receipt w)"
| "deliver P (InConnSaved c) w = save c w"

text \<open>\<^verbatim>\<open>asyncio.wait_for(coro, timeout)\<close> lets the coroutine see the arrivals that come before
  the timeout: each arrival carries its time, counted from the start of the wait, and the
  arrivals come in the order of their times.\<close>

definition before_timeout :: "nat \<Rightarrow> (nat \<times> inbound) list \<Rightarrow> inbound list" where
  "before_timeout timeout arrivals = map snd (takeWhile (\<lambda>a. fst a < timeout) arrivals)"

text \<open>\<^verbatim>\<open>check_reuse_msg_state\<close> under \<^verbatim>\<open>wait_for\<close>: the loop reads \<^verbatim>\<open>reuse_msg_state\<close> and
  returns once it is not \<^verbatim>\<open>"initial"\<close>; between two reads the next arrival is handled. When
  the arrivals before the timeout are used up and the state is still \<^verbatim>\<open>"initial"\<close>, the wait
  ends in \<^verbatim>\<open>asyncio.TimeoutError\<close>: the result \<open>False\<close>.\<close>

fun check_reuse_msg_state :: "profile \<Rightarrow> inbound list \<Rightarrow> ConnRecord \<Rightarrow> world \<Rightarrow> bool \<times> world" where
  "check_reuse_msg_state P [] conn_rec w =
     (metadata_get conn_rec ''reuse_msg_state'' w \<noteq> Some (MStr ''initial''), w)"
| "check_reuse_msg_state P (a # arrivals) conn_rec w =
     (if metadata_get conn_rec ''reuse_msg_state'' w \<noteq> Some (MStr ''initial'') then (True, w)
      else check_reuse_msg_state P arrivals conn_rec (deliver P a w))"

definition REUSE_TIMEOUT :: nat where
  "REUSE_TIMEOUT = 15"

definition ACTIVE_TIMEOUT :: nat where
  "ACTIVE_TIMEOUT = 7"

text \<open>\<^verbatim>\<open>conn_rec_is_active\<close> under \<^verbatim>\<open>wait_for\<close>: the loop retrieves the record by id and returns
  it once it is ready. \<open>None\<close> is \<^verbatim>\<open>asyncio.TimeoutError\<close>; a failed retrieval is raised as it
  is.\<close>

fun conn_rec_is_active ::
  "profile \<Rightarrow> inbound list \<Rightarrow> string \<Rightarrow> world \<Rightarrow> (error + ConnRecord) option \<times> world"
where
  "conn_rec_is_active P [] conn_rec_id w =
     (case retrieve_by_id conn_rec_id (connections w) of
        Inl e \<Rightarrow> (Some (Inl e), w)
      | Inr conn_rec \<Rightarrow> if is_ready P conn_rec then (Some (Inr conn_rec), w) else (None, w))"
| "conn_rec_is_active P (a # arrivals) conn_rec_id w =
     (case retrieve_by_id conn_rec_id (connections w) of
        Inl e \<Rightarrow> (Some (Inl e), w)
      | Inr conn_rec \<Rightarrow>
          if is_ready P conn_rec then (Some (Inr conn_rec), w)
          else conn_rec_is_active P arrivals conn_rec_id (deliver P a w))"

section \<open>Receiving an invitation\<close>

text \<open>Python's truth of an optional string and of an optional flag.\<close>

fun truthy_str :: "string option \<Rightarrow> bool" where
  "truthy_str None = False"
| "truthy_str (Some s) = (s \<noteq> [])"

fun truthy_flag :: "bool option \<Rightarrow> bool" where
  "truthy_flag None = False"
| "truthy_flag (Some b) = b"

text \<open>\<^verbatim>\<open>dict.fromkeys(xs)\<close>, read back as a list: the keys in the order of their first
  occurrence.\<close>

fun dict_fromkeys :: "'a list \<Rightarrow> 'a list" where
  "dict_fromkeys [] = []"
| "dict_fromkeys (x # xs) = x # dict_fromkeys (filter (\<lambda>y. y \<noteq> x) xs)"

text \<open>\<^verbatim>\<open>s.split(":")[-1]\<close>: what follows the last colon.\<close>

definition after_last_colon :: "string \<Rightarrow> string" where
  "after_last_colon s = rev (takeWhile (\<lambda>c. c \<noteq> CHR '':'') (rev s))"

text \<open>Modelled from the spec: the four message types are constants of the credential and
  presentation protocols' \<^verbatim>\<open>message_types\<close> modules, which are not part of this module. The
  spec names the four handlers proof-request-v1, proof-request-v2, credential-offer-v1 and
  credential-offer-v2, selected by the protocol-prefix-stripped type.\<close>

definition PRESENTATION_REQUEST :: string where
  "PRESENTATION_REQUEST = ''present-proof/1.0/request-presentation''"

definition PRES_20_REQUEST :: string where
  "PRES_20_REQUEST = ''present-proof/2.0/request-presentation''"

definition CREDENTIAL_OFFER :: string where
  "CREDENTIAL_OFFER = ''issue-credential/1.0/offer-credential''"

definition CRED_20_OFFER :: string where
  "CRED_20_OFFER = ''issue-credential/2.0/offer-credential''"

text \<open>Lines 401 to 405: a mediation id that storage does not know is dropped; any other
  failure of the lookup is raised.\<close>

definition checked_mediation_id :: "profile \<Rightarrow> string option \<Rightarrow> error + string option" where
  "checked_mediation_id P mediation_id =
     (if truthy_str mediation_id then
        (case mediation_record_if_id P mediation_id False of
           Inl (StorageNotFoundError m) \<Rightarrow> Inr None
         | Inl err \<Rightarrow> Inl err
         | Inr rec \<Rightarrow> Inr mediation_id)
      else Inr mediation_id)"

text \<open>Lines 416 to 448: the service block and the public DID of the one service entry.\<close>

definition service_of :: "profile \<Rightarrow> service_item \<Rightarrow> error + (Service \<times> string option)" where
  "service_of P oob_service_item =
     (case oob_service_item of
        ServiceBlock service \<Rightarrow> Inr (service, None)
      | ServiceDID service_did \<Rightarrow>
          (case resolve_invitation P service_did of
             Inl err \<Rightarrow> Inl err
           | Inr (endpoint, recipient_keys', routing_keys') \<Rightarrow>
               Inr (\<lparr>recipient_keys = map (from_public_key_b58 P) recipient_keys',
                     routing_keys = map (from_public_key_b58 P) routing_keys',
                     service_endpoint = endpoint\<rparr>,
                    Some (after_last_colon service_did))))"

text \<open>Lines 450 to 458.\<close>

definition unq_handshake_protos :: "profile \<Rightarrow> InvitationMessage \<Rightarrow> HSProto option list" where
  "unq_handshake_protos P invitation =
     map (HSProto_get P) (dict_fromkeys (map (unqualify P) (handshake_protocols invitation)))"

text \<open>Lines 461 to 469: the candidate connection, sought only for an invitation with a public
  DID.\<close>

definition seek_existing :: "string option \<Rightarrow> world \<Rightarrow> ConnRecord option" where
  "seek_existing public_did w =
     (case public_did of
        None \<Rightarrow> None
      | Some d \<Rightarrow> find_existing_connection [] [(''their_public_did'', Some d)] w)"

text \<open>Lines 479 to 518, the body of the first branch: send the reuse message, wait for the
  state to leave \<^verbatim>\<open>"initial"\<close>, and settle. After the wait \<^verbatim>\<open>reuse_msg_id\<close> is deleted and
  \<^verbatim>\<open>reuse_msg_state\<close> is read; \<^verbatim>\<open>"not_accepted"\<close> drops the candidate, anything else deletes
  \<^verbatim>\<open>reuse_msg_state\<close> and keeps it. On \<^verbatim>\<open>asyncio.TimeoutError\<close> both keys are deleted and the
  record is saved in state abandoned.\<close>

definition attempt_reuse ::
  "profile \<Rightarrow> InvitationMessage \<Rightarrow> (nat \<times> inbound) list \<Rightarrow> ConnRecord \<Rightarrow> world \<Rightarrow> ConnRecord option outcome"
where
  "attempt_reuse P invitation reuse_arrivals conn_rec w =
     (case create_handshake_reuse_message P invitation conn_rec w of
        (Inl err, w1) \<Rightarrow> (Inl err, w1)
      | (Inr u, w1) \<Rightarrow>
          (case check_reuse_msg_state P (before_timeout REUSE_TIMEOUT reuse_arrivals) conn_rec w1 of
             (True, w2) \<Rightarrow>
               (let w3 = metadata_delete conn_rec ''reuse_msg_id'' w2;
                    msg_state = metadata_get conn_rec ''reuse_msg_state'' w3
                in if msg_state = Some (MStr ''not_accepted'') then (Inr None, w3)
                   else (Inr (Some conn_rec), metadata_delete conn_rec ''reuse_msg_state'' w3))
           | (False, w2) \<Rightarrow>
               (Inr None,
                save (conn_rec\<lparr>conn_state := State_ABANDONED_rfc160\<rparr>)
                  (metadata_delete conn_rec ''reuse_msg_state''
                    (metadata_delete conn_rec ''reuse_msg_id'' w2)))))"

text \<open>Lines 470 to 538: what becomes of a candidate connection.\<close>

definition reuse_connection ::
  "profile \<Rightarrow> InvitationMessage \<Rightarrow> bool \<Rightarrow> (nat \<times> inbound) list \<Rightarrow> HSProto option list
    \<Rightarrow> ConnRecord \<Rightarrow> world \<Rightarrow> ConnRecord option outcome"
where
  "reuse_connection P invitation use_existing_connection reuse_arrivals protos conn_rec w =
     (let num_included_protocols = length protos;
          num_included_req_attachments = length (requests_attach invitation)
      in if num_included_protocols \<ge> 1 \<and> num_included_req_attachments = 0
            \<and> use_existing_connection
         then attempt_reuse P invitation reuse_arrivals conn_rec w
         else if \<not> ((num_included_protocols = 0 \<and> num_included_req_attachments \<ge> 1
                        \<and> use_existing_connection)
                    \<or> (num_included_protocols \<ge> 1 \<and> num_included_req_attachments \<ge> 1
                        \<and> use_existing_connection))
         then (Inr None, w)
         else (Inr (Some conn_rec), w))"

text \<open>Lines 546 to 581: one handshake strategy. The legacy strategy first rewrites the keys
  of the service from DID-key identifiers to raw verification keys, in the service block
  itself, and builds a connection invitation from them. A protocol that \<^verbatim>\<open>HSProto.get\<close> did
  not recognise runs no strategy.\<close>

definition handshake ::
  "profile \<Rightarrow> InvitationMessage \<Rightarrow> string option \<Rightarrow> bool option \<Rightarrow> string option \<Rightarrow> string option
    \<Rightarrow> HSProto option \<Rightarrow> Service \<Rightarrow> world \<Rightarrow> (ConnRecord option \<times> Service) outcome"
where
  "handshake P invitation public_did auto_accept alias mediation_id proto service w =
     (case proto of
        Some RFC23 \<Rightarrow>
          (case didx_receive_invitation P invitation public_did auto_accept alias mediation_id w of
             (Inl err, w1) \<Rightarrow> (Inl err, w1)
           | (Inr conn_rec, w1) \<Rightarrow> (Inr (conn_rec, service), w1))
      | Some RFC160 \<Rightarrow>
          (let service1 = service\<lparr>recipient_keys := map (public_key_b58 P) (recipient_keys service),
                                  routing_keys := map (public_key_b58 P) (routing_keys service)\<rparr>;
               connection_invitation =
                 \<lparr>ci_id = invi_id invitation,
                  ci_type = qualify_current P (HSProto_name P RFC160),
                  ci_label = invi_label invitation,
                  ci_recipient_keys = recipient_keys service1,
                  ci_endpoint = service_endpoint service1,
                  ci_routing_keys = routing_keys service1\<rparr>
           in case conn_receive_invitation P connection_invitation public_did auto_accept alias
                     mediation_id w of
                (Inl err, w1) \<Rightarrow> (Inl err, w1)
              | (Inr conn_rec, w1) \<Rightarrow> (Inr (conn_rec, service1), w1))
      | None \<Rightarrow> (Inr (None, service), w))"

text \<open>Lines 545 to 583: the loop over the protocols, left at the first connection record.\<close>

fun try_protocols ::
  "profile \<Rightarrow> InvitationMessage \<Rightarrow> string option \<Rightarrow> bool option \<Rightarrow> string option \<Rightarrow> string option
    \<Rightarrow> HSProto option list \<Rightarrow> Service \<Rightarrow> world \<Rightarrow> (ConnRecord option \<times> Service) outcome"
where
  "try_protocols P invitation public_did auto_accept alias mediation_id [] service w =
     (Inr (None, service), w)"
| "try_protocols P invitation public_did auto_accept alias mediation_id (proto # protos) service w =
     (case handshake P invitation public_did auto_accept alias mediation_id proto service w of
        (Inl err, w1) \<Rightarrow> (Inl err, w1)
      | (Inr (conn_rec, service1), w1) \<Rightarrow>
          if conn_rec \<noteq> None then (Inr (conn_rec, service1), w1)
          else try_protocols P invitation public_did auto_accept alias mediation_id protos service1 w1)"

text \<open>Lines 539 to 583: with no connection to reuse, a new one is made; a reused connection
  passes through.\<close>

definition new_connection ::
  "profile \<Rightarrow> InvitationMessage \<Rightarrow> string option \<Rightarrow> bool option \<Rightarrow> string option \<Rightarrow> string option
    \<Rightarrow> HSProto option list \<Rightarrow> Service \<Rightarrow> ConnRecord option \<Rightarrow> world
    \<Rightarrow> (ConnRecord option \<times> Service) outcome"
where
  "new_connection P invitation public_did auto_accept alias mediation_id protos service conn_rec w =
     (if conn_rec = None then
        (if protos = [] then
           (Inl (OutOfBandManagerError
              ''No existing connection exists and handshake_protocol is missing''), w)
         else try_protocols P invitation public_did auto_accept alias mediation_id protos service w)
      else (Inr (conn_rec, service), w))"

section \<open>The attachment of an invitation\<close>

text \<open>The reply of the four handlers: \<^verbatim>\<open>responder.send(message, target_list=...)\<close>, with the
  targets fetched only when a responder is injected.\<close>

definition send_reply :: "profile \<Rightarrow> message \<Rightarrow> ConnRecord \<Rightarrow> world \<Rightarrow> unit outcome" where
  "send_reply P m conn_rec w =
     (if responder P then
        (case fetch_connection_targets P conn_rec w of
           Inl err \<Rightarrow> (Inl err, w)
         | Inr targets \<Rightarrow> (Inr (), send m (TargetList targets) w))
      else (Inr (), w))"

text \<open>\<^verbatim>\<open>_process_pres_request_v1\<close>.\<close>

definition process_pres_request_v1 ::
  "profile \<Rightarrow> AttachContent \<Rightarrow> Service \<Rightarrow> ConnRecord \<Rightarrow> bool \<Rightarrow> world \<Rightarrow> unit outcome"
where
  "process_pres_request_v1 P content service conn_rec trace w =
     (case decode_indy_proof_request P content of
        Inl err \<Rightarrow> (Inl err, w)
      | Inr proof_req \<Rightarrow>
          (let pres_request_msg = content\<lparr>content_service := Some service\<rparr>;
               pres_ex_record =
                 \<lparr>pres_ex_id = None,
                  px_connection_id = Some (connection_id conn_rec),
                  px_thread_id = content_id pres_request_msg,
                  pres_request = pres_request_msg,
                  indy_proof_request = Some proof_req,
                  auto_present = setting_auto_respond_presentation_request P,
                  px_trace = trace\<rparr>
           in case v10_receive_request P pres_ex_record w of
                (Inl err, w1) \<Rightarrow> (Inl err, w1)
              | (Inr pres_ex_record1, w1) \<Rightarrow>
                  if auto_present pres_ex_record1 then
                    (case requested_creds P proof_req w1 of
                       Inl (ValueError m) \<Rightarrow>
                         (Inl (OutOfBandManagerError
                            ''Cannot auto-respond to presentation request attachment''), w1)
                     | Inl err \<Rightarrow> (Inl err, w1)
                     | Inr req_creds \<Rightarrow>
                         (case v10_create_presentation P pres_ex_record1 req_creds w1 of
                            (Inl err, w2) \<Rightarrow> (Inl err, w2)
                          | (Inr (pres_ex_record2, presentation_message), w2) \<Rightarrow>
                              send_reply P presentation_message conn_rec w2))
                  else
                    (Inl (OutOfBandManagerError
                       (''Configuration sets auto_present false: cannot ''
                         @ ''respond automatically to presentation requests'')), w1)))"

text \<open>\<^verbatim>\<open>_process_pres_request_v2\<close>.\<close>

definition process_pres_request_v2 ::
  "profile \<Rightarrow> AttachContent \<Rightarrow> Service \<Rightarrow> ConnRecord \<Rightarrow> bool \<Rightarrow> world \<Rightarrow> unit outcome"
where
  "process_pres_request_v2 P content service conn_rec trace w =
     (let pres_request_msg = content\<lparr>content_service := Some service\<rparr>;
          pres_ex_record =
            \<lparr>pres_ex_id = None,
             px_connection_id = Some (connection_id conn_rec),
             px_thread_id = content_id pres_request_msg,
             pres_request = pres_request_msg,
             indy_proof_request = None,
             auto_present = setting_auto_respond_presentation_request P,
             px_trace = trace\<rparr>
      in case v20_receive_pres_request P pres_ex_record w of
           (Inl err, w1) \<Rightarrow> (Inl err, w1)
         | (Inr pres_ex_record1, w1) \<Rightarrow>
             if auto_present pres_ex_record1 then
               (case v20_create_pres P pres_ex_record1 w1 of
                  (Inl err, w2) \<Rightarrow> (Inl err, w2)
                | (Inr (pres_ex_record2, pres_msg), w2) \<Rightarrow> send_reply P pres_msg conn_rec w2)
             else
               (Inl (OutOfBandManagerError
                  (''Configuration set auto_present false: cannot ''
                    @ ''respond automatically to presentation requests'')), w1))"

text \<open>\<^verbatim>\<open>_process_cred_offer_v1\<close>: the credential manager receives the offer; then the setting
  \<^verbatim>\<open>debug.auto_respond_credential_offer\<close> is read. With the setting on, a request is created
  and sent only for a connection that is ready; with it off the error is raised.\<close>

definition AUTO_OFFER_FALSE :: string where
  "AUTO_OFFER_FALSE =
     ''Configuration sets auto_offer false: cannot '' @ ''respond automatically to credential offers''"

definition process_cred_offer_v1 ::
  "profile \<Rightarrow> AttachContent \<Rightarrow> ConnRecord \<Rightarrow> bool \<Rightarrow> world \<Rightarrow> unit outcome"
where
  "process_cred_offer_v1 P content conn_rec trace w =
     (case v10_receive_offer P content trace (connection_id conn_rec) w of
        (Inl err, w1) \<Rightarrow> (Inl err, w1)
      | (Inr cred_ex_record, w1) \<Rightarrow>
          if setting_auto_respond_credential_offer P then
            (if is_ready P conn_rec then
               (case v10_create_request P cred_ex_record (my_did conn_rec) w1 of
                  (Inl err, w2) \<Rightarrow> (Inl err, w2)
                | (Inr (cred_ex_record1, cred_request_message), w2) \<Rightarrow>
                    send_reply P cred_request_message conn_rec w2)
             else (Inr (), w1))
          else (Inl (OutOfBandManagerError AUTO_OFFER_FALSE), w1))"

text \<open>\<^verbatim>\<open>_process_cred_offer_v2\<close>.\<close>

definition process_cred_offer_v2 ::
  "profile \<Rightarrow> AttachContent \<Rightarrow> ConnRecord \<Rightarrow> bool \<Rightarrow> world \<Rightarrow> unit outcome"
where
  "process_cred_offer_v2 P content conn_rec trace w =
     (case v20_receive_offer P content trace (connection_id conn_rec) w of
        (Inl err, w1) \<Rightarrow> (Inl err, w1)
      | (Inr cred_ex_record, w1) \<Rightarrow>
          if setting_auto_respond_credential_offer P then
            (if is_ready P conn_rec then
               (case v20_create_request P cred_ex_record (my_did conn_rec) w1 of
                  (Inl err, w2) \<Rightarrow> (Inl err, w2)
                | (Inr (cred_ex_record1, cred_request_message), w2) \<Rightarrow>
                    send_reply P cred_request_message conn_rec w2)
             else (Inr (), w1))
          else (Inl (OutOfBandManagerError AUTO_OFFER_FALSE), w1))"

text \<open>Lines 608 to 621 and 628 to 641: with auto-accept, wait for the connection to become
  ready; a timeout keeps the record at hand.\<close>

definition await_active ::
  "profile \<Rightarrow> bool option \<Rightarrow> (nat \<times> inbound) list \<Rightarrow> ConnRecord \<Rightarrow> world \<Rightarrow> ConnRecord outcome"
where
  "await_active P auto_accept active_arrivals conn_rec w =
     (if truthy_flag auto_accept \<or> setting_auto_accept_invites P then
        (case conn_rec_is_active P (before_timeout ACTIVE_TIMEOUT active_arrivals)
                (connection_id conn_rec) w of
           (Some (Inl err), w1) \<Rightarrow> (Inl err, w1)
         | (Some (Inr conn_rec1), w1) \<Rightarrow> (Inr conn_rec1, w1)
         | (None, w1) \<Rightarrow> (Inr conn_rec, w1))
      else (Inr conn_rec, w))"

text \<open>Lines 586 to 659: the first entry of \<^verbatim>\<open>requests~attach\<close> is dispatched on its
  unqualified type; the other entries are not read. An \<^verbatim>\<open>AttachDecorator\<close> without data is
  passed over.\<close>

definition process_requests_attach ::
  "profile \<Rightarrow> InvitationMessage \<Rightarrow> bool option \<Rightarrow> (nat \<times> inbound) list \<Rightarrow> Service
    \<Rightarrow> ConnRecord option \<Rightarrow> world \<Rightarrow> ConnRecord option outcome"
where
  "process_requests_attach P invitation auto_accept active_arrivals service conn_rec_opt w =
     (case (requests_attach invitation, conn_rec_opt) of
        (req_attach # others, Some conn_rec) \<Rightarrow>
          (case req_attach of
             AttachDecorator None \<Rightarrow> (Inr (Some conn_rec), w)
           | AttachDecorator (Some content) \<Rightarrow>
               (let unq_req_attach_type = unqualify P (content_type content);
                    trace = (invi_trace invitation \<noteq> None)
                in if unq_req_attach_type = PRESENTATION_REQUEST then
                     (case process_pres_request_v1 P content service conn_rec trace w of
                        (Inl err, w1) \<Rightarrow> (Inl err, w1)
                      | (Inr u, w1) \<Rightarrow> (Inr (Some conn_rec), w1))
                   else if unq_req_attach_type = PRES_20_REQUEST then
                     (case process_pres_request_v2 P content service conn_rec trace w of
                        (Inl err, w1) \<Rightarrow> (Inl err, w1)
                      | (Inr u, w1) \<Rightarrow> (Inr (Some conn_rec), w1))
                   else if unq_req_attach_type = CREDENTIAL_OFFER then
                     (case await_active P auto_accept active_arrivals conn_rec w of
                        (Inl err, w1) \<Rightarrow> (Inl err, w1)
                      | (Inr conn_rec1, w1) \<Rightarrow>
                          (case process_cred_offer_v1 P content conn_rec1 trace w1 of
                             (Inl err, w2) \<Rightarrow> (Inl err, w2)
                           | (Inr u, w2) \<Rightarrow> (Inr (Some conn_rec1), w2)))
                   else if unq_req_attach_type = CRED_20_OFFER then
                     (case await_active P auto_accept active_arrivals conn_rec w of
                        (Inl err, w1) \<Rightarrow> (Inl err, w1)
                      | (Inr conn_rec1, w1) \<Rightarrow>
                          (case process_cred_offer_v2 P content conn_rec1 trace w1 of
                             (Inl err, w2) \<Rightarrow> (Inl err, w2)
                           | (Inr u, w2) \<Rightarrow> (Inr (Some conn_rec1), w2)))
                   else
                     (Inl (OutOfBandManagerError
                        (''Unsupported requests~attach type '' @ content_type content
                          @ '': must unqualify to'' @ PRESENTATION_REQUEST @ '' or ''
                          @ PRES_20_REQUEST @ CREDENTIAL_OFFER @ '' or '' @ CRED_20_OFFER)), w))
           | NotAttachDecorator x \<Rightarrow>
               (Inl (OutOfBandManagerError ''requests~attach is not properly formatted''), w))
      | _ \<Rightarrow> (Inr conn_rec_opt, w))"

section \<open>\<^verbatim>\<open>receive_invitation\<close>\<close>

text \<open>Lines 470 to 583: from the candidate connection found (or none) to the connection the
  attachment is processed on, with the service block as the handshake left it.\<close>

definition connect_with_candidate ::
  "profile \<Rightarrow> InvitationMessage \<Rightarrow> bool \<Rightarrow> bool option \<Rightarrow> string option \<Rightarrow> string option
    \<Rightarrow> (nat \<times> inbound) list \<Rightarrow> string option \<Rightarrow> Service \<Rightarrow> ConnRecord option \<Rightarrow> world
    \<Rightarrow> (ConnRecord option \<times> Service) outcome"
where
  "connect_with_candidate P invitation use_existing_connection auto_accept alias mediation_id
      reuse_arrivals public_did service candidate w =
     (case candidate of
        None \<Rightarrow>
          new_connection P invitation public_did auto_accept alias mediation_id
            (unq_handshake_protos P invitation) service None w
      | Some conn_rec \<Rightarrow>
          (case reuse_connection P invitation use_existing_connection reuse_arrivals
                  (unq_handshake_protos P invitation) conn_rec w of
             (Inl err, w1) \<Rightarrow> (Inl err, w1)
           | (Inr conn_rec1, w1) \<Rightarrow>
               new_connection P invitation public_did auto_accept alias mediation_id
                 (unq_handshake_protos P invitation) service conn_rec1 w1))"

text \<open>Lines 401 to 583: the checks of the invitation, its service, and the connection.\<close>

definition establish ::
  "profile \<Rightarrow> InvitationMessage \<Rightarrow> bool \<Rightarrow> bool option \<Rightarrow> string option \<Rightarrow> string option
    \<Rightarrow> (nat \<times> inbound) list \<Rightarrow> world \<Rightarrow> (ConnRecord option \<times> Service) outcome"
where
  "establish P invitation use_existing_connection auto_accept alias mediation_id reuse_arrivals w =
     (case checked_mediation_id P mediation_id of
        Inl err \<Rightarrow> (Inl err, w)
      | Inr mediation_id1 \<Rightarrow>
          (case services invitation of
             [oob_service_item] \<Rightarrow>
               if requests_attach invitation = [] \<and> handshake_protocols invitation = [] then
                 (Inl (OutOfBandManagerError
                    ''Invitation must specify handshake_protocols, requests_attach, or both''), w)
               else
                 (case service_of P oob_service_item of
                    Inl err \<Rightarrow> (Inl err, w)
                  | Inr (service, public_did) \<Rightarrow>
                      connect_with_candidate P invitation use_existing_connection auto_accept alias
                        mediation_id1 reuse_arrivals public_did service
                        (seek_existing public_did w) w)
           | _ \<Rightarrow>
               (Inl (OutOfBandManagerError ''service array must have exactly one element''), w)))"

text \<open>\<^verbatim>\<open>receive_invitation\<close>. Its two last arguments are the arrivals during the wait for
  the reuse state and during the wait for the connection to become ready.\<close>

definition receive_invitation ::
  "profile \<Rightarrow> InvitationMessage \<Rightarrow> bool \<Rightarrow> bool option \<Rightarrow> string option \<Rightarrow> string option
    \<Rightarrow> (nat \<times> inbound) list \<Rightarrow> (nat \<times> inbound) list \<Rightarrow> world \<Rightarrow> ConnRecord option outcome"
where
  "receive_invitation P invitation use_existing_connection auto_accept alias mediation_id
      reuse_arrivals active_arrivals w =
     (case establish P invitation use_existing_connection auto_accept alias mediation_id
             reuse_arrivals w of
        (Inl err, w1) \<Rightarrow> (Inl err, w1)
      | (Inr (conn_rec, service), w1) \<Rightarrow>
          process_requests_attach P invitation auto_accept active_arrivals service conn_rec w1)"

section \<open>\<^verbatim>\<open>create_invitation\<close>\<close>

record InvitationRecord =
  ir_state :: string
  ir_invi_msg_id :: string
  ir_invitation :: InvitationMessage
  ir_invitation_url :: string

definition STATE_INITIAL :: string where
  "STATE_INITIAL = ''initial''"

text \<open>Python's \<^verbatim>\<open>a or b\<close> on optional strings.\<close>

definition or_else :: "string option \<Rightarrow> string option \<Rightarrow> string option" where
  "or_else a b = (if truthy_str a then a else b)"

text \<open>Lines 162 to 212: one attachment reference, resolved to the serialised offer or request
  of the exchange record it names, looked up in the v1 store and then in the v2 store.\<close>

definition message_attachment ::
  "string option \<times> string option \<Rightarrow> world \<Rightarrow> error + req_attach"
where
  "message_attachment atch w =
     (let a_type = fst atch; a_id = snd atch
      in if a_type = Some ''credential-offer'' then
           (case find (\<lambda>r. Some (credential_exchange_id r) = a_id) (v10_cred_ex w) of
              Some cred_ex_rec \<Rightarrow> Inr (AttachDecorator (Some (credential_offer_dict cred_ex_rec)))
            | None \<Rightarrow>
                (case find (\<lambda>r. Some (cred_ex_id r) = a_id) (v20_cred_ex w) of
                   Some cred_ex_rec \<Rightarrow> Inr (AttachDecorator (Some (cred_offer cred_ex_rec)))
                 | None \<Rightarrow> Inl (StorageNotFoundError (str_opt a_id))))
         else if a_type = Some ''present-proof'' then
           (case find (\<lambda>r. pres_ex_id r = a_id \<and> a_id \<noteq> None) (v10_pres_ex w) of
              Some pres_ex_rec \<Rightarrow> Inr (AttachDecorator (Some (pres_request pres_ex_rec)))
            | None \<Rightarrow>
                (case find (\<lambda>r. pres_ex_id r = a_id \<and> a_id \<noteq> None) (v20_pres_ex w) of
                   Some pres_ex_rec \<Rightarrow> Inr (AttachDecorator (Some (pres_request pres_ex_rec)))
                 | None \<Rightarrow> Inl (StorageNotFoundError (str_opt a_id))))
         else Inl (OutOfBandManagerError (''Unknown attachment type: '' @ str_opt a_type)))"

fun message_attachments ::
  "(string option \<times> string option) list \<Rightarrow> world \<Rightarrow> error + req_attach list"
where
  "message_attachments [] w = Inr []"
| "message_attachments (atch # attachments) w =
     (case message_attachment atch w of
        Inl err \<Rightarrow> Inl err
      | Inr a \<Rightarrow>
          (case message_attachments attachments w of
             Inl err \<Rightarrow> Inl err
           | Inr as \<Rightarrow> Inr (a # as)))"

text \<open>Modelled from the spec: saving a new \<^verbatim>\<open>ConnRecord\<close> gives it an identifier
  (the connection store's "create"); \<^verbatim>\<open>attach_invitation\<close> stores the invitation with the
  connection; the multi-tenant manager's \<^verbatim>\<open>add_key(tenant, key, skipIfExists)\<close> records the
  key for the tenant.\<close>

definition save_new :: "profile \<Rightarrow> ConnRecord \<Rightarrow> world \<Rightarrow> ConnRecord \<times> world" where
  "save_new P conn_rec w =
     (let conn_rec1 = conn_rec\<lparr>connection_id := uuid4 P (uuid_counter w)\<rparr>
      in (conn_rec1, save conn_rec1 (w\<lparr>uuid_counter := Suc (uuid_counter w)\<rparr>)))"

definition attach_invitation :: "ConnRecord \<Rightarrow> InvitationMessage \<Rightarrow> world \<Rightarrow> world" where
  "attach_invitation conn_rec invi_msg w =
     w\<lparr>invitations_attached := invitations_attached w @ [(connection_id conn_rec, invi_msg)]\<rparr>"

definition multitenant_add_key :: "string \<Rightarrow> string \<Rightarrow> bool \<Rightarrow> world \<Rightarrow> world" where
  "multitenant_add_key wallet_id key skip_if_exists w =
     (if skip_if_exists \<and> (wallet_id, key) \<in> set (multitenant_keys w) then w
      else w\<lparr>multitenant_keys := multitenant_keys w @ [(wallet_id, key)]\<rparr>)"

text \<open>Lines 221 to 263: the invitation from the public DID.\<close>

definition public_invitation ::
  "profile \<Rightarrow> string option \<Rightarrow> bool \<Rightarrow> string option \<Rightarrow> string list \<Rightarrow> string option
    \<Rightarrow> req_attach list \<Rightarrow> world \<Rightarrow> InvitationRecord outcome"
where
  "public_invitation P my_label accept alias handshake_protocols' connection_protocol'
      message_attachments' w =
     (if \<not> setting_public_invites P then
        (Inl (OutOfBandManagerError ''Public invitations are not enabled''), w)
      else
        (case wallet_public_did P of
           None \<Rightarrow>
             (Inl (OutOfBandManagerError ''Cannot create public invitation with no public DID''), w)
         | Some public_did \<Rightarrow>
             (let invi_msg =
                    \<lparr>invi_id = uuid4 P (uuid_counter w),
                     invi_label = or_else my_label (setting_default_label P),
                     handshake_protocols = handshake_protocols',
                     requests_attach = message_attachments',
                     services = [ServiceDID (''did:sov:'' @ did public_did)],
                     invi_trace = None\<rparr>;
                  w1 = w\<lparr>uuid_counter := Suc (uuid_counter w)\<rparr>
              in case resolve_invitation P (did public_did) of
                   Inl err \<Rightarrow> (Inl err, w1)
                 | Inr (endpoint, rest) \<Rightarrow>
                     (let invi_url = to_url P invi_msg endpoint;
                          (conn_rec, w2) =
                            save_new P
                              \<lparr>connection_id = [],
                               my_did = None,
                               their_did = None,
                               their_role = Some Role_REQUESTER_rfc23,
                               their_public_did = None,
                               invitation_key = Some (verkey public_did),
                               invitation_msg_id = Some (invi_id invi_msg),
                               conn_state = State_INVITATION_rfc23,
                               conn_accept = Some (if accept then ACCEPT_AUTO else ACCEPT_MANUAL),
                               invitation_mode = None,
                               conn_alias = alias,
                               connection_protocol = connection_protocol'\<rparr> w1;
                          w3 = attach_invitation conn_rec invi_msg w2;
                          w4 = (case setting_wallet_id P of
                                  Some wallet_id \<Rightarrow>
                                    if multitenant_mgr P \<and> wallet_id \<noteq> []
                                    then multitenant_add_key wallet_id (verkey public_did) True w3
                                    else w3
                                | None \<Rightarrow> w3)
                      in (Inr \<lparr>ir_state = STATE_INITIAL,
                               ir_invi_msg_id = invi_id invi_msg,
                               ir_invitation = invi_msg,
                               ir_invitation_url = invi_url\<rparr>, w4)))))"

text \<open>Lines 334 to 339: a routing key written with two colons is a DID-key identifier
  already; any other key is a raw verification key and is converted.\<close>

definition normalize_routing_key :: "profile \<Rightarrow> string \<Rightarrow> string" where
  "normalize_routing_key P key =
     (if length (filter (\<lambda>c. c = CHR '':'') key) = 2 then key else from_public_key_b58 P key)"

text \<open>Lines 266 to 370: the pairwise invitation, with a fresh invitation key. The key list
  update is sent to the mediator without a test that a responder is injected.\<close>

definition pairwise_invitation ::
  "profile \<Rightarrow> string option \<Rightarrow> string option \<Rightarrow> bool \<Rightarrow> bool \<Rightarrow> string option \<Rightarrow> string list
    \<Rightarrow> string option \<Rightarrow> req_attach list \<Rightarrow> (string \<times> meta_value) list \<Rightarrow> MediationRecord option
    \<Rightarrow> world \<Rightarrow> InvitationRecord outcome"
where
  "pairwise_invitation P my_label my_endpoint accept multi_use alias handshake_protocols'
      connection_protocol' message_attachments' metadata mediation_record w =
     (let invitation_mode' = (if multi_use then INVITATION_MODE_MULTI else INVITATION_MODE_ONCE);
          my_endpoint1 = (if truthy_str my_endpoint then my_endpoint else setting_default_endpoint P);
          connection_key = create_signing_key P (uuid_counter w);
          w1 = w\<lparr>uuid_counter := Suc (uuid_counter w)\<rparr>;
          keylist_updates = Some [connection_key];
          multitenant = (multitenant_mgr P \<and> truthy_str (setting_wallet_id P));
          w2 = (case setting_wallet_id P of
                  Some wallet_id \<Rightarrow>
                    if multitenant then multitenant_add_key wallet_id connection_key False w1 else w1
                | None \<Rightarrow> w1);
          invi_msg_id = uuid4 P (uuid_counter w2);
          w3 = w2\<lparr>uuid_counter := Suc (uuid_counter w2)\<rparr>;
          (conn_rec, w4) =
            save_new P
              \<lparr>connection_id = [],
               my_did = None,
               their_did = None,
               their_role = Some Role_REQUESTER_rfc23,
               their_public_did = None,
               invitation_key = Some connection_key,
               invitation_msg_id = Some invi_msg_id,
               conn_state = State_INVITATION_rfc23,
               conn_accept = Some (if accept then ACCEPT_AUTO else ACCEPT_MANUAL),
               invitation_mode = Some invitation_mode',
               conn_alias = alias,
               connection_protocol = connection_protocol'\<rparr> w3;
          base_mediation_record = (if multitenant then multitenant_default_mediator P else None);
          routing_keys1 = (case base_mediation_record of
                             Some b \<Rightarrow> med_routing_keys b | None \<Rightarrow> []);
          my_endpoint2 = (case base_mediation_record of
                            Some b \<Rightarrow> med_endpoint b | None \<Rightarrow> my_endpoint1);
          keylist_updates1 = (case base_mediation_record of
                                Some b \<Rightarrow> None | None \<Rightarrow> keylist_updates);
          routing_keys2 = (case mediation_record of
                             Some m \<Rightarrow> routing_keys1 @ med_routing_keys m | None \<Rightarrow> routing_keys1);
          my_endpoint3 = (case mediation_record of
                            Some m \<Rightarrow> med_endpoint m | None \<Rightarrow> my_endpoint2);
          w5 = (case mediation_record of
                  Some m \<Rightarrow> metadata_set conn_rec ''mediation'' (MDict [(''id'', med_mediation_id m)]) w4
                | None \<Rightarrow> w4)
      in case (case (mediation_record, keylist_updates1) of
                 (Some m, Some (k # ks)) \<Rightarrow>
                   if responder P
                   then Inr (send (MsgKeylistUpdate (k # ks)) (ConnectionId (med_connection_id m)) w5)
                   else Inl (AttributeError ''send'')
               | _ \<Rightarrow> Inr w5) of
           Inl err \<Rightarrow> (Inl err, w5)
         | Inr w6 \<Rightarrow>
             (let routing_keys3 = map (normalize_routing_key P) routing_keys2;
                  invi_msg =
                    \<lparr>invi_id = invi_msg_id,
                     invi_label = or_else my_label (setting_default_label P),
                     handshake_protocols = handshake_protocols',
                     requests_attach = message_attachments',
                     services =
                       [ServiceBlock \<lparr>recipient_keys = [from_public_key_b58 P connection_key],
                                      routing_keys = routing_keys3,
                                      service_endpoint = my_endpoint3\<rparr>],
                     invi_trace = None\<rparr>;
                  invi_url = to_url P invi_msg None;
                  w7 = attach_invitation conn_rec invi_msg w6;
                  w8 = fold (\<lambda>kv. metadata_set conn_rec (fst kv) (snd kv)) metadata w7
              in (Inr \<lparr>ir_state = STATE_INITIAL,
                       ir_invi_msg_id = invi_msg_id,
                       ir_invitation = invi_msg,
                       ir_invitation_url = invi_url\<rparr>, w8)))"

definition SHAPE_MSG :: string where
  "SHAPE_MSG = ''Invitation must include handshake protocols, '' @ ''request attachments, or both''"

definition MULTI_USE_MSG :: string where
  "MULTI_USE_MSG = ''Cannot create public invitation with multi_use''"

definition METADATA_MSG :: string where
  "METADATA_MSG = ''Cannot store metadata on public invitations''"

text \<open>\<^verbatim>\<open>create_invitation\<close>. The mediation record is looked up first; then the invitation
  must have a handshake protocol or an attachment; then a public invitation must be
  neither multi-use nor carry metadata.\<close>

definition create_invitation ::
  "profile \<Rightarrow> string option \<Rightarrow> string option \<Rightarrow> bool option \<Rightarrow> bool \<Rightarrow> HSProto list \<Rightarrow> bool
    \<Rightarrow> string option \<Rightarrow> (string option \<times> string option) list \<Rightarrow> (string \<times> meta_value) list
    \<Rightarrow> string option \<Rightarrow> world \<Rightarrow> InvitationRecord outcome"
where
  "create_invitation P my_label my_endpoint auto_accept public hs_protos multi_use alias
      attachments metadata mediation_id w =
     (case mediation_record_if_id P mediation_id True of
        Inl err \<Rightarrow> (Inl err, w)
      | Inr mediation_record \<Rightarrow>
          if hs_protos = [] \<and> attachments = [] then (Inl (OutOfBandManagerError SHAPE_MSG), w)
          else
            (let accept = (auto_accept = Some True
                            \<or> (auto_accept = None \<and> setting_auto_accept_requests P))
             in if public \<and> multi_use then (Inl (OutOfBandManagerError MULTI_USE_MSG), w)
                else if public \<and> metadata \<noteq> [] then (Inl (OutOfBandManagerError METADATA_MSG), w)
                else
                  (case message_attachments attachments w of
                     Inl err \<Rightarrow> (Inl err, w)
                   | Inr message_attachments' \<Rightarrow>
                       (let handshake_protocols' =
                              map (\<lambda>hsp. qualify_current P (HSProto_name P hsp)) hs_protos;
                            connection_protocol' =
                              (case hs_protos of [] \<Rightarrow> None | hsp # hs \<Rightarrow> Some (HSProto_name P hsp))
                        in if public then
                             public_invitation P my_label accept alias handshake_protocols'
                               connection_protocol' message_attachments' w
                           else
                             pairwise_invitation P my_label my_endpoint accept multi_use alias
                               handshake_protocols' connection_protocol' message_attachments'
                               metadata mediation_record w))))"

section \<open>The words of the specification\<close>

text \<open>The applicability rule of the specification, in its words: reuse is attempted only
  when the caller permits it and the combination is (protocols present, no attachments),
  (no protocols, attachments present) or (protocols present, attachments present).\<close>

definition spec_reuse_applicable :: "bool \<Rightarrow> string list \<Rightarrow> req_attach list \<Rightarrow> bool" where
  "spec_reuse_applicable permitted protocols attachments =
     (permitted \<and>
       ((protocols \<noteq> [] \<and> attachments = [])
        \<or> (protocols = [] \<and> attachments \<noteq> [])
        \<or> (protocols \<noteq> [] \<and> attachments \<noteq> [])))"

text \<open>The public DID an invitation carries: its one service entry is a DID that resolves.\<close>

definition public_did_of :: "profile \<Rightarrow> InvitationMessage \<Rightarrow> string option" where
  "public_did_of P invitation =
     (case services invitation of
        [ServiceDID service_did] \<Rightarrow>
          (case resolve_invitation P service_did of
             Inl err \<Rightarrow> None
           | Inr x \<Rightarrow> Some (after_last_colon service_did))
      | _ \<Rightarrow> None)"


fun is_conn_saved :: "inbound \<Rightarrow> bool" where
  "is_conn_saved (InConnSaved c) = True"
| "is_conn_saved a = False"

text \<open>The state a reuse negotiation is read back in: the reuse message is sent, and the wait
  ends before the timeout with this value of \<^verbatim>\<open>reuse_msg_state\<close>.\<close>

definition negotiation_reaches ::
  "profile \<Rightarrow> InvitationMessage \<Rightarrow> (nat \<times> inbound) list \<Rightarrow> ConnRecord \<Rightarrow> world \<Rightarrow> string \<Rightarrow> bool"
where
  "negotiation_reaches P invitation reuse_arrivals conn_rec w st =
     (case create_handshake_reuse_message P invitation conn_rec w of
        (Inl err, w1) \<Rightarrow> False
      | (Inr u, w1) \<Rightarrow>
          (case check_reuse_msg_state P (before_timeout REUSE_TIMEOUT reuse_arrivals) conn_rec w1 of
             (finished, w2) \<Rightarrow>
               finished \<and> responder P
               \<and> metadata_get conn_rec ''reuse_msg_state'' w2 = Some (MStr st)))"

section \<open>A sample agent\<close>

text \<open>A concrete profile and world, on which the theorems below are run: the agent holds one
  active connection, bound to the public DID \<^verbatim>\<open>D1\<close>. Its handshake strategies store a fresh
  record in state \<^verbatim>\<open>request-sent\<close>; its credential managers store a fresh exchange record.\<close>

definition sample_uuid :: "nat \<Rightarrow> string" where
  "sample_uuid n = ''id'' @ replicate n (CHR ''+'')"

definition sample_strategy :: "string \<Rightarrow> string option \<Rightarrow> world \<Rightarrow> ConnRecord option outcome" where
  "sample_strategy proto public_did w =
     (let conn_rec =
            \<lparr>connection_id = sample_uuid (uuid_counter w),
             my_did = Some ''my-did'',
             their_did = None,
             their_role = Some ''inviter'',
             their_public_did = public_did,
             invitation_key = None,
             invitation_msg_id = None,
             conn_state = ''request-sent'',
             conn_accept = Some ''auto'',
             invitation_mode = Some ''once'',
             conn_alias = None,
             connection_protocol = Some proto\<rparr>
      in (Inr (Some conn_rec), save conn_rec (w\<lparr>uuid_counter := Suc (uuid_counter w)\<rparr>)))"

definition sample_profile :: profile where
  "sample_profile =
     \<lparr>setting_wallet_id = None,
      setting_auto_accept_requests = False,
      setting_auto_accept_invites = False,
      setting_auto_respond_credential_offer = False,
      setting_auto_respond_presentation_request = False,
      setting_public_invites = True,
      setting_default_label = Some ''agent'',
      setting_default_endpoint = Some ''http://agent'',
      responder = True,
      multitenant_mgr = False,
      multitenant_default_mediator = None,
      wallet_public_did = Some \<lparr>did = ''D0'', verkey = ''VK0''\<rparr>,
      uuid4 = sample_uuid,
      create_signing_key = (\<lambda>n. ''key'' @ replicate n (CHR ''+'')),
      unqualify = (\<lambda>s. s),
      qualify_current = (\<lambda>s. s),
      HSProto_get = (\<lambda>s. if s = ''didexchange/1.0'' then Some RFC23
                         else if s = ''connections/1.0'' then Some RFC160 else None),
      HSProto_name = (\<lambda>p. case p of RFC23 \<Rightarrow> ''didexchange/1.0'' | RFC160 \<Rightarrow> ''connections/1.0''),
      from_public_key_b58 = (\<lambda>k. ''did:key:'' @ k),
      public_key_b58 = drop 8,
      resolve_invitation = (\<lambda>d. Inr (Some ''http://peer'', [''VK1''], [])),
      mediation_record_if_id = (\<lambda>m d. Inr None),
      fetch_connection_targets = (\<lambda>c w. Inr [connection_id c]),
      is_ready = (\<lambda>c. conn_state c = ''active''),
      didx_receive_invitation = (\<lambda>invitation public_did auto_accept alias mediation_id.
                                   sample_strategy ''didexchange/1.0'' public_did),
      conn_receive_invitation = (\<lambda>invitation public_did auto_accept alias mediation_id.
                                   sample_strategy ''connections/1.0'' public_did),
      v10_receive_offer = (\<lambda>content trace cid w.
         (let r = \<lparr>credential_exchange_id = sample_uuid (uuid_counter w),
                   cx_connection_id = Some cid, credential_offer_dict = content\<rparr>
          in (Inr r, w\<lparr>uuid_counter := Suc (uuid_counter w), v10_cred_ex := v10_cred_ex w @ [r]\<rparr>))),
      v10_create_request = (\<lambda>r holder w. (Inr (r, MsgCredRequest (credential_exchange_id r)), w)),
      v20_receive_offer = (\<lambda>content trace cid w.
         (let r = \<lparr>cred_ex_id = sample_uuid (uuid_counter w),
                   cx2_connection_id = Some cid, cred_offer = content\<rparr>
          in (Inr r, w\<lparr>uuid_counter := Suc (uuid_counter w), v20_cred_ex := v20_cred_ex w @ [r]\<rparr>))),
      v20_create_request = (\<lambda>r holder w. (Inr (r, MsgCredRequest (cred_ex_id r)), w)),
      decode_indy_proof_request = (\<lambda>content. Inr (content_body content)),
      v10_receive_request = (\<lambda>r w. (Inr r, w\<lparr>v10_pres_ex := v10_pres_ex w @ [r]\<rparr>)),
      requested_creds = (\<lambda>proof_req w. Inr proof_req),
      v10_create_presentation = (\<lambda>r creds w. (Inr (r, MsgPresentation creds), w)),
      v20_receive_pres_request = (\<lambda>r w. (Inr r, w\<lparr>v20_pres_ex := v20_pres_ex w @ [r]\<rparr>)),
      v20_create_pres = (\<lambda>r w. (Inr (r, MsgPresentation (px_thread_id r)), w)),
      to_url = (\<lambda>invi_msg endpoint. ''http://oob?id='' @ invi_id invi_msg)\<rparr>"

definition sample_conn :: ConnRecord where
  "sample_conn =
     \<lparr>connection_id = ''conn-1'',
      my_did = Some ''my-did'',
      their_did = Some ''their-did'',
      their_role = Some ''inviter'',
      their_public_did = Some ''D1'',
      invitation_key = None,
      invitation_msg_id = Some ''oob-0'',
      conn_state = ''active'',
      conn_accept = Some ''auto'',
      invitation_mode = Some ''once'',
      conn_alias = None,
      connection_protocol = Some ''didexchange/1.0''\<rparr>"

definition empty_world :: world where
  "empty_world =
     \<lparr>connections = [],
      conn_metadata = (\<lambda>k. None),
      outbox = [],
      uuid_counter = 0,
      v10_cred_ex = [],
      v20_cred_ex = [],
      v10_pres_ex = [],
      v20_pres_ex = [],
      multitenant_keys = [],
      invitations_attached = []\<rparr>"

definition sample_world :: world where
  "sample_world = empty_world\<lparr>connections := [sample_conn]\<rparr>"

text \<open>An invitation from the public DID \<^verbatim>\<open>D1\<close>, with one handshake protocol and no
  attachment, and one with a credential offer attached.\<close>

definition sample_invitation :: "string \<Rightarrow> InvitationMessage" where
  "sample_invitation i =
     \<lparr>invi_id = i,
      invi_label = Some ''peer'',
      handshake_protocols = [''didexchange/1.0''],
      requests_attach = [],
      services = [ServiceDID ''did:sov:D1''],
      invi_trace = None\<rparr>"

definition sample_offer :: AttachContent where
  "sample_offer =
     \<lparr>content_id = ''offer-1'',
      content_type = ''issue-credential/1.0/offer-credential'',
      content_body = ''{}'',
      content_service = None\<rparr>"

text \<open>The answers of the peer to the reuse message with a given thread id.\<close>

definition sample_accept :: "string \<Rightarrow> inbound" where
  "sample_accept t =
     InReuseAccept \<lparr>msg_id = ''accept'', msg_thread = Some \<lparr>thid = Some t, pthid = Some ''oob-0''\<rparr>\<rparr>
       \<lparr>sender_did = Some ''their-did''\<rparr> sample_conn"

definition sample_report :: "string \<Rightarrow> inbound" where
  "sample_report t =
     InProblemReport \<lparr>msg_id = ''report'', msg_thread = Some \<lparr>thid = Some t, pthid = Some ''oob-0''\<rparr>\<rparr>
       \<lparr>sender_did = Some ''their-did''\<rparr> sample_conn"

section \<open>Facts about the store and the waits\<close>

lemma dict_fromkeys_Nil_iff: "dict_fromkeys xs = [] \<longleftrightarrow> xs = []"
  by (cases xs) simp_all

lemma unq_handshake_protos_Nil_iff:
  "unq_handshake_protos P invitation = [] \<longleftrightarrow> handshake_protocols invitation = []"
  by (simp add: unq_handshake_protos_def dict_fromkeys_Nil_iff)







lemma reuse_connection_rejected:
  assumes "\<not> spec_reuse_applicable use (handshake_protocols invitation) (requests_attach invitation)"
  shows "reuse_connection P invitation use arrivals (unq_handshake_protos P invitation) c w
           = (Inr None, w)"
proof -
  have "(0 < length (unq_handshake_protos P invitation)) = (handshake_protocols invitation \<noteq> [])"
    using unq_handshake_protos_Nil_iff [of P invitation] by auto
  with assms show ?thesis
    by (auto simp: reuse_connection_def spec_reuse_applicable_def Let_def Suc_le_eq)
qed

lemma reuse_connection_applicable:
  assumes "spec_reuse_applicable use (handshake_protocols invitation) (requests_attach invitation)"
  shows "reuse_connection P invitation use arrivals (unq_handshake_protos P invitation) c w =
     (if requests_attach invitation = [] then attempt_reuse P invitation arrivals c w
      else (Inr (Some c), w))"
proof -
  have "(0 < length (unq_handshake_protos P invitation)) = (handshake_protocols invitation \<noteq> [])"
    using unq_handshake_protos_Nil_iff [of P invitation] by auto
  with assms show ?thesis
    by (auto simp: reuse_connection_def spec_reuse_applicable_def Let_def Suc_le_eq)
qed

section \<open>The applicability of reuse\<close>

text \<open>
  Claim C1. For a received invitation with a public DID and a candidate connection \<open>c\<close>,
  the code's decision follows the rule of the specification. When the rule does not
  apply (the caller does not permit reuse, or the combination of handshake protocols and
  attachments is none of the three shapes), the candidate is rejected at once: nothing is
  sent or written, and the receipt goes on exactly as it does when no candidate was
  found. When the rule applies, the reuse message is sent and awaited in the shape
  (protocols, no attachments), and the candidate is kept as it is in the two shapes with
  attachments.
\<close>

theorem reuse_applicability:
  "(\<not> spec_reuse_applicable use (handshake_protocols invitation) (requests_attach invitation) \<longrightarrow>
      reuse_connection P invitation use arrivals (unq_handshake_protos P invitation) c w
        = (Inr None, w)
      \<and> connect_with_candidate P invitation use auto_accept alias mediation_id arrivals public_did
            service (Some c) w
          = connect_with_candidate P invitation use auto_accept alias mediation_id arrivals
              public_did service None w)
   \<and> (spec_reuse_applicable use (handshake_protocols invitation) (requests_attach invitation) \<longrightarrow>
      reuse_connection P invitation use arrivals (unq_handshake_protos P invitation) c w =
        (if requests_attach invitation = [] then attempt_reuse P invitation arrivals c w
         else (Inr (Some c), w)))"
  using reuse_connection_rejected [of use invitation P arrivals c w]
    reuse_connection_applicable [of use invitation P arrivals c w]
  by (simp add: connect_with_candidate_def)

theorem reuse_applicability_witness:
  "\<not> spec_reuse_applicable False (handshake_protocols (sample_invitation ''oob-1''))
        (requests_attach (sample_invitation ''oob-1''))
   \<and> reuse_connection sample_profile (sample_invitation ''oob-1'') False []
        (unq_handshake_protos sample_profile (sample_invitation ''oob-1'')) sample_conn sample_world
       = (Inr None, sample_world)
   \<and> spec_reuse_applicable True
        (handshake_protocols ((sample_invitation ''oob-2'')
           \<lparr>requests_attach := [AttachDecorator (Some sample_offer)]\<rparr>))
        (requests_attach ((sample_invitation ''oob-2'')
           \<lparr>requests_attach := [AttachDecorator (Some sample_offer)]\<rparr>))
   \<and> reuse_connection sample_profile
        ((sample_invitation ''oob-2'')\<lparr>requests_attach := [AttachDecorator (Some sample_offer)]\<rparr>)
        True []
        (unq_handshake_protos sample_profile
          ((sample_invitation ''oob-2'')\<lparr>requests_attach := [AttachDecorator (Some sample_offer)]\<rparr>))
        sample_conn sample_world
       = (Inr (Some sample_conn), sample_world)"
proof -
  let ?i2 = "(sample_invitation ''oob-2'')\<lparr>requests_attach := [AttachDecorator (Some sample_offer)]\<rparr>"
  have a: "\<not> spec_reuse_applicable False (handshake_protocols (sample_invitation ''oob-1''))
        (requests_attach (sample_invitation ''oob-1''))"
    by (simp add: spec_reuse_applicable_def)
  have b: "spec_reuse_applicable True (handshake_protocols ?i2) (requests_attach ?i2)"
    by (simp add: spec_reuse_applicable_def sample_invitation_def)
  have n: "requests_attach ?i2 \<noteq> []" by simp
  from a reuse_applicability [where use = False and invitation = "sample_invitation ''oob-1''"
      and P = sample_profile and arrivals = "[]" and c = sample_conn and w = sample_world]
  have r1: "reuse_connection sample_profile (sample_invitation ''oob-1'') False []
        (unq_handshake_protos sample_profile (sample_invitation ''oob-1'')) sample_conn sample_world
       = (Inr None, sample_world)"
    by blast
  from b n reuse_applicability [where use = True and invitation = ?i2
      and P = sample_profile and arrivals = "[]" and c = sample_conn and w = sample_world]
  have r2: "reuse_connection sample_profile ?i2 True [] (unq_handshake_protos sample_profile ?i2)
        sample_conn sample_world = (Inr (Some sample_conn), sample_world)"
    by simp
  from a b r1 r2 show ?thesis by blast
qed

section \<open>The timeout of a reuse negotiation\<close>



section \<open>The thread id of an answer\<close>

text \<open>
  Claim C4. When the thread id of an inbound reuse-accept, or of an inbound problem
  report, is not the \<^verbatim>\<open>reuse_msg_id\<close> stored in the metadata of the connection, the handler
  raises an error and writes nothing: the world, and with it \<^verbatim>\<open>reuse_msg_state\<close>, is as it
  was.
\<close>

theorem thread_mismatch_rejected:
  assumes "map_option MStr (thread_id m) \<noteq> metadata_get conn_record ''reuse_msg_id'' w"
  shows "(\<exists>e. receive_reuse_accepted_message m receipt conn_record w = (Inl e, w))
       \<and> (\<exists>e. receive_problem_report m receipt conn_record w = (Inl e, w))"
  using assms
  by (auto simp: receive_reuse_accepted_message_def receive_problem_report_def thread_id_def Let_def
      split: option.splits)

theorem thread_mismatch_rejected_witness:
  "map_option MStr
      (thread_id \<lparr>msg_id = ''accept'',
                  msg_thread = Some \<lparr>thid = Some ''other'', pthid = Some ''oob-0''\<rparr>\<rparr>)
     \<noteq> metadata_get sample_conn ''reuse_msg_id''
         (metadata_set sample_conn ''reuse_msg_id'' (MStr ''id'') sample_world)
   \<and> (\<exists>e. receive_reuse_accepted_message
             \<lparr>msg_id = ''accept'', msg_thread = Some \<lparr>thid = Some ''other'', pthid = Some ''oob-0''\<rparr>\<rparr>
             \<lparr>sender_did = Some ''their-did''\<rparr> sample_conn
             (metadata_set sample_conn ''reuse_msg_id'' (MStr ''id'') sample_world)
           = (Inl e, metadata_set sample_conn ''reuse_msg_id'' (MStr ''id'') sample_world))
   \<and> (\<exists>e. receive_problem_report
             \<lparr>msg_id = ''accept'', msg_thread = Some \<lparr>thid = Some ''other'', pthid = Some ''oob-0''\<rparr>\<rparr>
             \<lparr>sender_did = Some ''their-did''\<rparr> sample_conn
             (metadata_set sample_conn ''reuse_msg_id'' (MStr ''id'') sample_world)
           = (Inl e, metadata_set sample_conn ''reuse_msg_id'' (MStr ''id'') sample_world))"
proof -
  have h: "map_option MStr
      (thread_id \<lparr>msg_id = ''accept'',
                  msg_thread = Some \<lparr>thid = Some ''other'', pthid = Some ''oob-0''\<rparr>\<rparr>)
     \<noteq> metadata_get sample_conn ''reuse_msg_id''
         (metadata_set sample_conn ''reuse_msg_id'' (MStr ''id'') sample_world)"
    by (simp add: thread_id_def metadata_get_def metadata_set_def)
  from thread_mismatch_rejected [OF h] h show ?thesis by blast
qed

section \<open>Two receipts from one public DID\<close>

lemma send_reuse_accept_connections:
  "connections (snd (send_reuse_accept P t i receipt c w)) = connections w"
  by (simp add: send_reuse_accept_def send_def Let_def split: sum.splits error.splits)

lemma receive_reuse_message_connections:
  "connections (snd (receive_reuse_message P m receipt w)) = connections w"
  by (simp add: receive_reuse_message_def send_reuse_accept_connections Let_def split: option.splits)

lemma deliver_not_saved_connections:
  "\<not> is_conn_saved a \<Longrightarrow> connections (deliver P a w) = connections w"
  by (cases a)
    (simp_all add: receive_reuse_message_connections receive_reuse_accepted_message_def
      receive_problem_report_def metadata_set_def Let_def split: option.splits)

lemma check_reuse_msg_state_connections:
  "list_all (\<lambda>a. \<not> is_conn_saved a) arrivals
    \<Longrightarrow> connections (snd (check_reuse_msg_state P arrivals c w)) = connections w"
proof (induction arrivals arbitrary: w)
  case Nil
  then show ?case by simp
next
  case (Cons a arrivals)
  then show ?case by (simp add: deliver_not_saved_connections)
qed

lemma create_handshake_reuse_message_connections:
  "connections (snd (create_handshake_reuse_message P invitation c w)) = connections w"
  by (simp add: create_handshake_reuse_message_def Let_def metadata_set_def send_def
      split: sum.splits)

lemma seek_existing_connections:
  "connections w' = connections w \<Longrightarrow> seek_existing d w' = seek_existing d w"
  by (simp add: seek_existing_def find_existing_connection_def ConnRecord_query_def
      split: option.splits)

text \<open>One receipt whose own negotiation is read back as accepted: it returns the candidate,
  deletes both keys, and (when no handler saves a connection record during the wait) leaves
  the stored records as they were.\<close>

lemma receipt_accepted:
  assumes did: "public_did_of P invitation = Some d"
    and cand: "seek_existing (Some d) w = Some c"
    and shape: "handshake_protocols invitation \<noteq> []" "requests_attach invitation = []"
    and med: "checked_mediation_id P mediation_id = Inr m"
    and acc: "negotiation_reaches P invitation reuse_arrivals c w ''accepted''"
  shows "fst (receive_invitation P invitation True auto_accept alias mediation_id reuse_arrivals
                active_arrivals w) = Inr (Some c)"
    and "list_all (\<lambda>a. \<not> is_conn_saved a) (before_timeout REUSE_TIMEOUT reuse_arrivals)
          \<Longrightarrow> connections (snd (receive_invitation P invitation True auto_accept alias mediation_id
                reuse_arrivals active_arrivals w)) = connections w"
    and "metadata_get c ''reuse_msg_id'' (snd (receive_invitation P invitation True auto_accept alias
            mediation_id reuse_arrivals active_arrivals w)) = None"
    and "metadata_get c ''reuse_msg_state'' (snd (receive_invitation P invitation True auto_accept
            alias mediation_id reuse_arrivals active_arrivals w)) = None"
proof -
  obtain sd x where sv: "services invitation = [ServiceDID sd]"
    and res: "resolve_invitation P sd = Inr x" and d: "d = after_last_colon sd"
    using did
    by (auto simp: public_did_of_def split: list.splits service_item.splits sum.splits)
  obtain ep rk ro where x: "x = (ep, rk, ro)" by (cases x) auto
  obtain w1 where sent: "create_handshake_reuse_message P invitation c w = (Inr (), w1)"
    using acc by (auto simp: negotiation_reaches_def split: prod.splits sum.splits)
  obtain w2 where waited:
    "check_reuse_msg_state P (before_timeout REUSE_TIMEOUT reuse_arrivals) c w1 = (True, w2)"
    and state: "metadata_get c ''reuse_msg_state'' w2 = Some (MStr ''accepted'')"
    using acc sent by (auto simp: negotiation_reaches_def split: prod.splits)
  define w3 where "w3 = metadata_delete c ''reuse_msg_state'' (metadata_delete c ''reuse_msg_id'' w2)"
  have st3: "metadata_get c ''reuse_msg_state'' (metadata_delete c ''reuse_msg_id'' w2)
               = Some (MStr ''accepted'')"
    using state by (simp add: metadata_get_def metadata_delete_def)
  have att: "attempt_reuse P invitation reuse_arrivals c w = (Inr (Some c), w3)"
    using sent waited st3 by (simp add: attempt_reuse_def w3_def Let_def)
  have protos: "unq_handshake_protos P invitation \<noteq> []"
    using shape(1) by (simp add: unq_handshake_protos_Nil_iff)
  then have len: "1 \<le> length (unq_handshake_protos P invitation)"
    by (cases "unq_handshake_protos P invitation") simp_all
  have r: "reuse_connection P invitation True reuse_arrivals (unq_handshake_protos P invitation) c w
             = (Inr (Some c), w3)"
    using len shape(2) att by (simp add: reuse_connection_def)
  have est: "establish P invitation True auto_accept alias mediation_id reuse_arrivals w
      = (Inr (Some c, \<lparr>recipient_keys = map (from_public_key_b58 P) rk,
                       routing_keys = map (from_public_key_b58 P) ro,
                       service_endpoint = ep\<rparr>), w3)"
    using med sv shape res x d cand r
    by (simp add: establish_def service_of_def connect_with_candidate_def new_connection_def)
  have all: "receive_invitation P invitation True auto_accept alias mediation_id reuse_arrivals
                active_arrivals w = (Inr (Some c), w3)"
    using est shape(2) by (simp add: receive_invitation_def process_requests_attach_def)
  show "fst (receive_invitation P invitation True auto_accept alias mediation_id reuse_arrivals
                active_arrivals w) = Inr (Some c)"
    using all by simp
  show "metadata_get c ''reuse_msg_id'' (snd (receive_invitation P invitation True auto_accept alias
            mediation_id reuse_arrivals active_arrivals w)) = None"
    using all by (simp add: w3_def metadata_get_def metadata_delete_def)
  show "metadata_get c ''reuse_msg_state'' (snd (receive_invitation P invitation True auto_accept
            alias mediation_id reuse_arrivals active_arrivals w)) = None"
    using all by (simp add: w3_def metadata_get_def metadata_delete_def)
  assume ns: "list_all (\<lambda>a. \<not> is_conn_saved a) (before_timeout REUSE_TIMEOUT reuse_arrivals)"
  have "connections w2 = connections w1"
    using check_reuse_msg_state_connections [OF ns, of P c w1] waited by simp
  moreover have "connections w1 = connections w"
    using create_handshake_reuse_message_connections [of P invitation c w] sent by simp
  ultimately show "connections (snd (receive_invitation P invitation True auto_accept alias
      mediation_id reuse_arrivals active_arrivals w)) = connections w"
    using all by (simp add: w3_def metadata_delete_def)
qed

text \<open>
  Claim C2, as the claim states it, fails. On the sample agent the first receipt's
  negotiation is accepted and the receipt returns the connection \<^verbatim>\<open>conn-1\<close>; the second
  receipt sends a reuse message of its own, gets no answer before the timeout, abandons
  \<^verbatim>\<open>conn-1\<close> and returns a new connection with another id.
\<close>

theorem reuse_twice_counterexample:
  "negotiation_reaches sample_profile (sample_invitation ''oob-1'')
      [(3, sample_accept (sample_uuid 0))] sample_conn sample_world ''accepted''
   \<and> map_sum id (map_option connection_id)
        (fst (receive_invitation sample_profile (sample_invitation ''oob-1'') True None None None
               [(3, sample_accept (sample_uuid 0))] [] sample_world))
       = Inr (Some ''conn-1'')
   \<and> map_sum id (map_option connection_id)
        (fst (receive_invitation sample_profile (sample_invitation ''oob-2'') True None None None
               [] []
               (snd (receive_invitation sample_profile (sample_invitation ''oob-1'') True None None
                       None [(3, sample_accept (sample_uuid 0))] [] sample_world))))
       = Inr (Some ''id++'')
   \<and> map connection_id
        (connections
          (snd (receive_invitation sample_profile (sample_invitation ''oob-2'') True None None None
               [] []
               (snd (receive_invitation sample_profile (sample_invitation ''oob-1'') True None None
                       None [(3, sample_accept (sample_uuid 0))] [] sample_world)))))
       = [''conn-1'', ''id++'']"
  by code_simp

text \<open>
  Claim C2, amended. An active connection \<open>c\<close> is bound to the public DID \<open>d\<close>. Two
  invitations from \<open>d\<close>, each with a handshake protocol and no attachment, are received one
  after the other with reuse permitted. If the negotiation of each receipt is read back
  as accepted before its timeout (and no handler saves a connection record during the two
  waits), both receipts return \<open>c\<close> and the stored connection records are those of the
  start: no record is created.
\<close>

theorem reuse_twice_same_connection:
  assumes "seek_existing (Some d) w = Some c"
    and "public_did_of P inv1 = Some d" and "public_did_of P inv2 = Some d"
    and "handshake_protocols inv1 \<noteq> []" and "requests_attach inv1 = []"
    and "handshake_protocols inv2 \<noteq> []" and "requests_attach inv2 = []"
    and "checked_mediation_id P med1 = Inr m1" and "checked_mediation_id P med2 = Inr m2"
    and "list_all (\<lambda>a. \<not> is_conn_saved a) (before_timeout REUSE_TIMEOUT arrivals1)"
    and "list_all (\<lambda>a. \<not> is_conn_saved a) (before_timeout REUSE_TIMEOUT arrivals2)"
    and "negotiation_reaches P inv1 arrivals1 c w ''accepted''"
    and "negotiation_reaches P inv2 arrivals2 c
           (snd (receive_invitation P inv1 True accept1 alias1 med1 arrivals1 active1 w)) ''accepted''"
  shows "fst (receive_invitation P inv1 True accept1 alias1 med1 arrivals1 active1 w) = Inr (Some c)
    \<and> fst (receive_invitation P inv2 True accept2 alias2 med2 arrivals2 active2
             (snd (receive_invitation P inv1 True accept1 alias1 med1 arrivals1 active1 w)))
        = Inr (Some c)
    \<and> connections (snd (receive_invitation P inv2 True accept2 alias2 med2 arrivals2 active2
             (snd (receive_invitation P inv1 True accept1 alias1 med1 arrivals1 active1 w))))
        = connections w"
proof -
  let ?w1 = "snd (receive_invitation P inv1 True accept1 alias1 med1 arrivals1 active1 w)"
  have first: "fst (receive_invitation P inv1 True accept1 alias1 med1 arrivals1 active1 w)
                 = Inr (Some c)"
    using assms by (intro receipt_accepted(1))
  have c1: "connections ?w1 = connections w"
    using assms by (intro receipt_accepted(2))
  then have cand: "seek_existing (Some d) ?w1 = Some c"
    using assms(1) seek_existing_connections [of ?w1 w "Some d"] by simp
  have second: "fst (receive_invitation P inv2 True accept2 alias2 med2 arrivals2 active2 ?w1)
                  = Inr (Some c)"
    using cand assms by (intro receipt_accepted(1))
  have c2: "connections (snd (receive_invitation P inv2 True accept2 alias2 med2 arrivals2
                                 active2 ?w1)) = connections ?w1"
    using cand assms by (intro receipt_accepted(2))
  from first second c1 c2 show ?thesis by simp
qed

theorem reuse_twice_same_connection_witness:
  "seek_existing (Some ''D1'') sample_world = Some sample_conn
   \<and> negotiation_reaches sample_profile (sample_invitation ''oob-1'')
        [(3, sample_accept (sample_uuid 0))] sample_conn sample_world ''accepted''
   \<and> negotiation_reaches sample_profile (sample_invitation ''oob-2'')
        [(5, sample_accept (sample_uuid 1))] sample_conn
        (snd (receive_invitation sample_profile (sample_invitation ''oob-1'') True None None None
                [(3, sample_accept (sample_uuid 0))] [] sample_world)) ''accepted''
   \<and> fst (receive_invitation sample_profile (sample_invitation ''oob-1'') True None None None
            [(3, sample_accept (sample_uuid 0))] [] sample_world) = Inr (Some sample_conn)
   \<and> fst (receive_invitation sample_profile (sample_invitation ''oob-2'') True None None None
            [(5, sample_accept (sample_uuid 1))] []
            (snd (receive_invitation sample_profile (sample_invitation ''oob-1'') True None None None
                    [(3, sample_accept (sample_uuid 0))] [] sample_world)))
        = Inr (Some sample_conn)
   \<and> connections
        (snd (receive_invitation sample_profile (sample_invitation ''oob-2'') True None None None
            [(5, sample_accept (sample_uuid 1))] []
            (snd (receive_invitation sample_profile (sample_invitation ''oob-1'') True None None None
                    [(3, sample_accept (sample_uuid 0))] [] sample_world))))
        = connections sample_world"
proof -
  have h1: "seek_existing (Some ''D1'') sample_world = Some sample_conn"
    by code_simp
  have h2: "public_did_of sample_profile (sample_invitation ''oob-1'') = Some ''D1''"
    by code_simp
  have h3: "public_did_of sample_profile (sample_invitation ''oob-2'') = Some ''D1''"
    by code_simp
  have h4: "handshake_protocols (sample_invitation ''oob-1'') \<noteq> []"
    by (simp add: sample_invitation_def)
  have h5: "requests_attach (sample_invitation ''oob-1'') = []"
    by (simp add: sample_invitation_def)
  have h6: "handshake_protocols (sample_invitation ''oob-2'') \<noteq> []"
    by (simp add: sample_invitation_def)
  have h7: "requests_attach (sample_invitation ''oob-2'') = []"
    by (simp add: sample_invitation_def)
  have h8: "checked_mediation_id sample_profile None = Inr None"
    by (simp add: checked_mediation_id_def)
  have h10: "list_all (\<lambda>a. \<not> is_conn_saved a)
               (before_timeout REUSE_TIMEOUT [(3, sample_accept (sample_uuid 0))])"
    by code_simp
  have h11: "list_all (\<lambda>a. \<not> is_conn_saved a)
               (before_timeout REUSE_TIMEOUT [(5, sample_accept (sample_uuid 1))])"
    by code_simp
  have h12: "negotiation_reaches sample_profile (sample_invitation ''oob-1'')
        [(3, sample_accept (sample_uuid 0))] sample_conn sample_world ''accepted''"
    by code_simp
  have h13: "negotiation_reaches sample_profile (sample_invitation ''oob-2'')
        [(5, sample_accept (sample_uuid 1))] sample_conn
        (snd (receive_invitation sample_profile (sample_invitation ''oob-1'') True None None None
                [(3, sample_accept (sample_uuid 0))] [] sample_world)) ''accepted''"
    by code_simp
  from reuse_twice_same_connection [OF h1 h2 h3 h4 h5 h6 h7 h8 h8 h10 h11 h12 h13] h1 h12 h13
  show ?thesis by blast
qed

section \<open>The keys of a settled negotiation\<close>

text \<open>
  Claim C5, at the failing input. On the sample agent the peer answers the reuse message
  with a problem report on the right thread. The receipt reads \<^verbatim>\<open>not_accepted\<close>, drops the
  candidate and makes a new connection; \<^verbatim>\<open>reuse_msg_id\<close> is deleted, but \<^verbatim>\<open>reuse_msg_state\<close> is
  still stored for \<^verbatim>\<open>conn-1\<close>, with the value \<^verbatim>\<open>not_accepted\<close>. The accepted and the timeout
  paths delete both keys.
\<close>

theorem not_accepted_leaves_state_key:
  "negotiation_reaches sample_profile (sample_invitation ''oob-1'')
      [(3, sample_report (sample_uuid 0))] sample_conn sample_world ''not_accepted''
   \<and> metadata_get sample_conn ''reuse_msg_id''
        (snd (receive_invitation sample_profile (sample_invitation ''oob-1'') True None None None
                [(3, sample_report (sample_uuid 0))] [] sample_world)) = None
   \<and> metadata_get sample_conn ''reuse_msg_state''
        (snd (receive_invitation sample_profile (sample_invitation ''oob-1'') True None None None
                [(3, sample_report (sample_uuid 0))] [] sample_world))
       = Some (MStr ''not_accepted'')"
  by code_simp

section \<open>A reuse message with no connection\<close>

text \<open>
  Claim C6, at the failing input. The sample agent receives a reuse message whose parent
  thread names an invitation no connection carries, from a sender no connection knows.
  Neither lookup finds a connection; \<^verbatim>\<open>receive_reuse_message\<close> returns without an error, sends
  nothing and writes nothing.
\<close>

theorem reuse_message_unknown_returns:
  "find_existing_connection [] [(''invitation_msg_id'', Some ''nope'')] sample_world = None
   \<and> find_existing_connection [(''their_did'', Some ''nobody'')] [] sample_world = None
   \<and> receive_reuse_message sample_profile
        \<lparr>msg_id = ''r'', msg_thread = Some \<lparr>thid = Some ''r'', pthid = Some ''nope''\<rparr>\<rparr>
        \<lparr>sender_did = Some ''nobody''\<rparr> sample_world
       = (Inr (), sample_world)"
  by (simp add: receive_reuse_message_def find_existing_connection_def ConnRecord_query_def
      matches_filter_def field_value_def sample_world_def sample_conn_def empty_world_def)

section \<open>A public, multi-use invitation\<close>

text \<open>
  Claim C7, as the claim states it, fails: with no handshake protocol and no attachment,
  the call with \<^verbatim>\<open>public\<close> and \<^verbatim>\<open>multi_use\<close> fails on the shape of the invitation, which is
  checked first, and not on the combination of the two flags.
\<close>

theorem public_multi_use_counterexample:
  "create_invitation sample_profile None None None True [] True None [] [] None sample_world
     = (Inl (OutOfBandManagerError SHAPE_MSG), sample_world)
   \<and> SHAPE_MSG \<noteq> MULTI_USE_MSG"
  by (simp add: create_invitation_def sample_profile_def SHAPE_MSG_def MULTI_USE_MSG_def)

text \<open>
  Claim C7, amended. A call of \<^verbatim>\<open>create_invitation\<close> with \<^verbatim>\<open>public\<close> and \<^verbatim>\<open>multi_use\<close> always
  fails and writes nothing. When the mediation reference resolves, the error is the one of
  the invitation's shape if there is neither a handshake protocol nor an attachment, and
  otherwise the rejection of a public multi-use invitation, whatever the label, the
  endpoint, the accept policy, the alias and the metadata are.
\<close>

theorem public_multi_use_rejected:
  "(\<exists>err. create_invitation P my_label my_endpoint auto_accept True hs_protos True alias attachments
            metadata mediation_id w = (Inl err, w))
   \<and> (mediation_record_if_id P mediation_id True = Inr mediation_record \<longrightarrow>
        create_invitation P my_label my_endpoint auto_accept True hs_protos True alias attachments
            metadata mediation_id w
          = (Inl (OutOfBandManagerError
                (if hs_protos = [] \<and> attachments = [] then SHAPE_MSG else MULTI_USE_MSG)), w))"
  by (cases "mediation_record_if_id P mediation_id True") (simp_all add: create_invitation_def)

theorem public_multi_use_rejected_witness:
  "mediation_record_if_id sample_profile None True = Inr None
   \<and> create_invitation sample_profile (Some ''me'') None (Some True) True [RFC23] True
        (Some ''alias'') [(Some ''credential-offer'', Some ''x'')] [(''k'', MStr ''v'')] None
        sample_world
       = (Inl (OutOfBandManagerError MULTI_USE_MSG), sample_world)"
proof -
  have h: "mediation_record_if_id sample_profile None True = Inr None"
    by (simp add: sample_profile_def)
  from public_multi_use_rejected [where P = sample_profile and mediation_id = None
      and mediation_record = None and hs_protos = "[RFC23]"
      and attachments = "[(Some ''credential-offer'', Some ''x'')]"
      and my_label = "Some ''me''" and my_endpoint = None and auto_accept = "Some True"
      and metadata = "[(''k'', MStr ''v'')]" and w = sample_world] h
  show ?thesis by simp
qed

section \<open>A credential offer attached to an invitation\<close>


text \<open>With \<^verbatim>\<open>debug.auto_respond_credential_offer\<close> off, either handler ends in the world the
  credential manager's \<^verbatim>\<open>receive_offer\<close> left: with that manager's error, or with the error of
  the configuration.\<close>

lemma cred_offer_v1_disabled:
  "\<not> setting_auto_respond_credential_offer P \<Longrightarrow>
   process_cred_offer_v1 P content c trace w =
     (case v10_receive_offer P content trace (connection_id c) w of
        (Inl err, w1) \<Rightarrow> (Inl err, w1)
      | (Inr r, w1) \<Rightarrow> (Inl (OutOfBandManagerError AUTO_OFFER_FALSE), w1))"
  by (simp add: process_cred_offer_v1_def split: prod.splits sum.splits)

lemma cred_offer_v2_disabled:
  "\<not> setting_auto_respond_credential_offer P \<Longrightarrow>
   process_cred_offer_v2 P content c trace w =
     (case v20_receive_offer P content trace (connection_id c) w of
        (Inl err, w1) \<Rightarrow> (Inl err, w1)
      | (Inr r, w1) \<Rightarrow> (Inl (OutOfBandManagerError AUTO_OFFER_FALSE), w1))"
  by (simp add: process_cred_offer_v2_def split: prod.splits sum.splits)



section \<open>The order of the handshake strategies\<close>








section \<open>The offer is received before the setting is read\<close>

text \<open>
  Claim C10. In both credential-offer handlers the credential manager's \<^verbatim>\<open>receive_offer\<close> runs
  before \<^verbatim>\<open>debug.auto_respond_credential_offer\<close> is read. With the setting off, a handler
  whose \<^verbatim>\<open>receive_offer\<close> returned an exchange record fails with the error of the
  configuration in the world \<^verbatim>\<open>receive_offer\<close> left: what the credential manager stored
  stays stored.
\<close>

theorem offer_received_before_check:
  assumes "\<not> setting_auto_respond_credential_offer P"
  shows "(v10_receive_offer P content trace (connection_id c) w = (Inr r, w1) \<longrightarrow>
            process_cred_offer_v1 P content c trace w
              = (Inl (OutOfBandManagerError AUTO_OFFER_FALSE), w1))
       \<and> (v20_receive_offer P content trace (connection_id c) w = (Inr r2, w2) \<longrightarrow>
            process_cred_offer_v2 P content c trace w
              = (Inl (OutOfBandManagerError AUTO_OFFER_FALSE), w2))"
  using assms by (simp add: cred_offer_v1_disabled cred_offer_v2_disabled)

text \<open>On the sample agent, whose credential managers store the exchange record they make:
  after the failed call the record is in the store, which was empty before.\<close>

theorem offer_received_before_check_witness:
  "\<not> setting_auto_respond_credential_offer sample_profile
   \<and> v10_cred_ex sample_world = []
   \<and> v20_cred_ex sample_world = []
   \<and> (\<exists>r w1. v10_receive_offer sample_profile sample_offer False (connection_id sample_conn)
                 sample_world = (Inr r, w1)
          \<and> process_cred_offer_v1 sample_profile sample_offer sample_conn False sample_world
              = (Inl (OutOfBandManagerError AUTO_OFFER_FALSE), w1)
          \<and> v10_cred_ex w1 = [r])
   \<and> (\<exists>r2 w2. v20_receive_offer sample_profile sample_offer False (connection_id sample_conn)
                 sample_world = (Inr r2, w2)
          \<and> process_cred_offer_v2 sample_profile sample_offer sample_conn False sample_world
              = (Inl (OutOfBandManagerError AUTO_OFFER_FALSE), w2)
          \<and> v20_cred_ex w2 = [r2])"
proof -
  have off: "\<not> setting_auto_respond_credential_offer sample_profile"
    by (simp add: sample_profile_def)
  have e1: "v10_cred_ex sample_world = []" and e2: "v20_cred_ex sample_world = []"
    by (simp_all add: sample_world_def empty_world_def)
  obtain r w1 where a: "v10_receive_offer sample_profile sample_offer False
                          (connection_id sample_conn) sample_world = (Inr r, w1)"
    and ar: "v10_cred_ex w1 = [r]"
    by (simp add: sample_profile_def Let_def sample_world_def empty_world_def)
  obtain r2 w2 where b: "v20_receive_offer sample_profile sample_offer False
                          (connection_id sample_conn) sample_world = (Inr r2, w2)"
    and br: "v20_cred_ex w2 = [r2]"
    by (simp add: sample_profile_def Let_def sample_world_def empty_world_def)
  from offer_received_before_check [OF off, where content = sample_offer and trace = False
      and c = sample_conn and w = sample_world and r = r and ?w1.0 = w1 and ?r2.0 = r2
      and ?w2.0 = w2] a b
  have "process_cred_offer_v1 sample_profile sample_offer sample_conn False sample_world
              = (Inl (OutOfBandManagerError AUTO_OFFER_FALSE), w1)"
    and "process_cred_offer_v2 sample_profile sample_offer sample_conn False sample_world
              = (Inl (OutOfBandManagerError AUTO_OFFER_FALSE), w2)"
    by blast+
  with off e1 e2 a ar b br show ?thesis by blast
qed

end
